theory Spec2Isabelle
  imports Main "HOL-Library.Word"
begin

unbundle bit_operations_syntax

section \<open>The NVIDIA device plugin supervisor of HAMi (cmd/device-plugin/nvidia/main.go)\<close>

subsection \<open>Errors and log lines\<close>

text \<open>
  A Go \<open>error\<close> value that is not nil. \<open>nil\<close> is \<open>None\<close> of \<open>error option\<close>.
  The message of an error is kept structured instead of rendered:
  \<open>FmtErrorf p e\<close> is \<open>fmt.Errorf(p + "%v", e)\<close> for an error \<open>e\<close>, whose message is
  \<open>p\<close> followed by the message of \<open>e\<close>; \<open>ErrorString m\<close> is an error with the
  message \<open>m\<close>; \<open>Aggregate es\<close> is the aggregate of the errors \<open>es\<close>.
\<close>

datatype error = ErrorString string | FmtErrorf string error | Aggregate "error list"

datatype signal = SIGHUP | SIGINT | SIGTERM | SIGQUIT

text \<open>
  A line written through klog: the severity, the format string and its operands, as
  in \<open>klog.Infof(format, args...)\<close>. \<open>klog.Info(msg)\<close> has no operand.
\<close>

datatype severity = Info | Warning | Error

datatype logarg = ArgString string | ArgError error | ArgSignal signal

datatype logline = Log severity string "logarg list"

subsection \<open>The configuration (package api/config/v1 of k8s-device-plugin)\<close>

text \<open>
  The types are declared by the imported package \<open>spec\<close>; only the fields are listed.
  A pointer is an \<open>option\<close> (\<open>None\<close> is nil). A slice is a \<open>list option\<close>, where
  \<open>None\<close> is the nil slice, which \<open>len\<close> and \<open>range\<close> treat as empty.
  Field \<open>All\<close>, \<open>Count\<close> and \<open>List\<close> of \<open>ReplicatedDevices\<close> carry the prefix
  \<open>Devices_\<close>, and field \<open>Resources\<close> of \<open>ReplicatedResources\<close> is \<open>TimeSlicing_Resources\<close>.
\<close>

definition len :: "'a list option \<Rightarrow> nat" where
  "len xs = (case xs of None \<Rightarrow> 0 | Some l \<Rightarrow> length l)"

record ReplicatedDevices =
  Devices_All :: bool
  Devices_Count :: int
  Devices_List :: "string list option"

record ReplicatedResource =
  Name :: string
  Rename :: string
  Devices :: ReplicatedDevices
  Replicas :: int

record ReplicatedResources =
  RenameByDefault :: bool
  FailRequestsGreaterThanOne :: bool
  TimeSlicing_Resources :: "ReplicatedResource list option"

record Sharing =
  TimeSlicing :: ReplicatedResources

record Resource =
  Pattern :: string
  Resource_Name :: string

record Resources =
  GPUs :: "Resource list option"
  MIGs :: "Resource list option"

record PluginCommandLineFlags =
  PassDeviceSpecs :: "bool option"
  DeviceListStrategy :: "string list option"
  DeviceIDStrategy :: "string option"
  CDIAnnotationPrefix :: "string option"
  NvidiaCTKPath :: "string option"
  ContainerDriverRoot :: "string option"

record GFDCommandLineFlags =
  Oneshot :: "bool option"
  NoTimestamp :: "bool option"
  SleepInterval :: "int option"
  OutputFile :: "string option"
  MachineTypeFile :: "string option"

record Flags =
  MigStrategy :: "string option"
  FailOnInitError :: "bool option"
  NvidiaDriverRoot :: "string option"
  GDSEnabled :: "bool option"
  MOFEDEnabled :: "bool option"
  Plugin :: "PluginCommandLineFlags option"
  GFD :: "GFDCommandLineFlags option"

record Config =
  Version :: string
  Flags :: Flags
  Resources :: Resources
  Sharing :: Sharing

subsection \<open>disableResourceRenamingInConfig\<close>

text \<open>
  The loop over \<open>config.Sharing.TimeSlicing.Resources\<close> (lines 361 to 376). \<open>r\<close> is the
  copy of the entry that \<open>range\<close> hands out, so the three tests read the entry as it
  was before this iteration, and the assignments change the entry in the slice.
  \<open>DefaultSharedRename\<close> is the method of the package's \<open>ResourceName\<close>, a parameter here.
  The result is the slice's new entries and the two flags.
\<close>

fun timeSlicingLoop ::
  "(string \<Rightarrow> string) \<Rightarrow> bool \<Rightarrow> ReplicatedResource list \<Rightarrow> bool \<Rightarrow> bool
     \<Rightarrow> ReplicatedResource list \<times> bool \<times> bool" where
  "timeSlicingLoop DefaultSharedRename renameByDefault [] setsNonDefaultRename setsDevices =
     ([], setsNonDefaultRename, setsDevices)"
| "timeSlicingLoop DefaultSharedRename renameByDefault (r # rs) setsNonDefaultRename setsDevices =
     (let c1 = (\<not> renameByDefault \<and> Rename r \<noteq> '''');
          r1 = (if c1 then r\<lparr>Rename := ''''\<rparr> else r);
          c2 = (renameByDefault \<and> Rename r \<noteq> DefaultSharedRename (Name r));
          r2 = (if c2 then r1\<lparr>Rename := DefaultSharedRename (Name r)\<rparr> else r1);
          c3 = (\<not> Devices_All (Devices r));
          r3 = (if c3
                then r2\<lparr>Devices := (Devices r2)\<lparr>Devices_All := True, Devices_Count := 0,
                                                  Devices_List := None\<rparr>\<rparr>
                else r2)
      in case timeSlicingLoop DefaultSharedRename renameByDefault rs
                (setsNonDefaultRename \<or> c1 \<or> c2) (setsDevices \<or> c3) of
           (rs', a, b) \<Rightarrow> (r3 # rs', a, b))"

text \<open>The loop on the slice: nothing to do on the nil slice, which stays nil.\<close>

definition timeSlicingRange ::
  "(string \<Rightarrow> string) \<Rightarrow> bool \<Rightarrow> ReplicatedResource list option
     \<Rightarrow> ReplicatedResource list option \<times> bool \<times> bool" where
  "timeSlicingRange DefaultSharedRename renameByDefault resources =
     (case resources of
        None \<Rightarrow> (None, False, False)
      | Some rs \<Rightarrow>
          (case timeSlicingLoop DefaultSharedRename renameByDefault rs False False of
             (rs', a, b) \<Rightarrow> (Some rs', a, b)))"

definition msgResources :: logline where
  "msgResources =
     Log Info ''Customizing the 'resources' field is not yet supported in the config. Ignoring...'' []"

definition msgRename :: logline where
  "msgRename =
     Log Warning ''Setting the 'rename' field in sharing.timeSlicing.resources is not yet supported in the config. Ignoring...'' []"

definition msgDevices :: logline where
  "msgDevices =
     Log Warning ''Customizing the 'devices' field in sharing.timeSlicing.resources is not yet supported in the config. Ignoring...'' []"

text \<open>
  The function changes the configuration in place and returns nothing; the model
  returns the changed configuration and the lines it logs, in order.
\<close>

definition disableResourceRenamingInConfig ::
  "(string \<Rightarrow> string) \<Rightarrow> Config \<Rightarrow> Config \<times> logline list" where
  "disableResourceRenamingInConfig DefaultSharedRename config =
     (let log1 = (if len (GPUs (Resources config)) > 0 \<or> len (MIGs (Resources config)) > 0
                  then [msgResources] else []);
          config1 = config\<lparr>Resources := (Resources config)\<lparr>GPUs := None, MIGs := None\<rparr>\<rparr>;
          renameByDefault = RenameByDefault (TimeSlicing (Sharing config1))
      in case timeSlicingRange DefaultSharedRename renameByDefault
                (TimeSlicing_Resources (TimeSlicing (Sharing config1))) of
           (rs', setsNonDefaultRename, setsDevices) \<Rightarrow>
             (config1\<lparr>Sharing := (Sharing config1)\<lparr>TimeSlicing :=
                        (TimeSlicing (Sharing config1))\<lparr>TimeSlicing_Resources := rs'\<rparr>\<rparr>\<rparr>,
              log1 @ (if setsNonDefaultRename then [msgRename] else [])
                   @ (if setsDevices then [msgDevices] else [])))"

subsection \<open>What the program calls and does not define\<close>

text \<open>
  A call that can panic (here: a nil pointer dereference) either returns or panics.
\<close>

datatype 'a go = Return 'a | Panic

text \<open>
  A plugin (\<open>plugin.Interface\<close>): the three methods the supervisor calls. \<open>'w\<close> is the
  state of everything outside the supervisor (the kubelet, the driver, the files);
  \<open>Devices\<close> reads it, \<open>Start\<close> and \<open>Stop\<close> may change it. \<open>ident\<close> tells the handles
  apart in the record of calls.
\<close>

record 'w plugin =
  ident :: nat
  plugin_Devices :: "'w \<Rightarrow> string list"
  Start :: "'w \<Rightarrow> error option \<times> 'w"
  Stop :: "'w \<Rightarrow> error option \<times> 'w"

text \<open>
  The functions and constants of other packages and other files that \<open>main.go\<close> uses,
  as parameters. \<open>'c\<close> is \<open>*cli.Context\<close>, \<open>'f\<close> is \<open>[]cli.Flag\<close>, \<open>'dc\<close> is the device
  configuration and \<open>'pm\<close> the plugin manager. A function that returns \<open>(T, error)\<close>
  returns \<open>Inl\<close> the error or \<open>Inr\<close> the value.
\<close>

record ('w, 'c, 'f, 'dc, 'pm) externals =
  NewConfig :: "'c \<Rightarrow> 'f \<Rightarrow> 'w \<Rightarrow> error + Config"
  NewDeviceListStrategies :: "string list \<Rightarrow> error option"
  DefaultSharedRename :: "string \<Rightarrow> string"
  generateDeviceConfigFromNvidia :: "Config \<Rightarrow> 'c \<Rightarrow> 'f \<Rightarrow> 'w \<Rightarrow> (error + 'dc) \<times> 'w"
  AddDefaultResourcesToConfig :: "'dc \<Rightarrow> 'w \<Rightarrow> (error + 'dc) \<times> 'w"
  MarshalIndent :: "'dc \<Rightarrow> error + string"
  NewPluginManager :: "'dc \<Rightarrow> 'w \<Rightarrow> (error + 'pm) \<times> 'w"
  GetPlugins :: "'pm \<Rightarrow> 'w \<Rightarrow> (error + 'w plugin list) \<times> 'w"
  Getenv_NodeName :: "'w \<Rightarrow> string"
  InitGlobalClient :: "'w \<Rightarrow> 'w"
  newFSWatcher :: "string \<Rightarrow> 'w \<Rightarrow> error option \<times> 'w"
  watcher_Close :: "'w \<Rightarrow> 'w"
  DevicePluginPath :: string
  KubeletSocket :: string

text \<open>
  Modelled from the spec: the two constants \<open>DeviceIDStrategyUUID\<close> and
  \<open>DeviceIDStrategyIndex\<close> of the imported configuration package, which are not in the
  source files. The device-ID strategy is exactly \<open>uuid\<close> or \<open>index\<close>.
\<close>

definition DeviceIDStrategyUUID :: string where
  "DeviceIDStrategyUUID = ''uuid''"

definition DeviceIDStrategyIndex :: string where
  "DeviceIDStrategyIndex = ''index''"

text \<open>
  Modelled from the spec: \<open>NewAggregate\<close> of package \<open>k8s.io/apimachinery/pkg/util/errors\<close>,
  which is not in the source files. Stop errors are collected into an aggregate; the nil
  entries of the list are dropped, and the aggregate of no error is nil.
\<close>

definition NewAggregate :: "error option list \<Rightarrow> error option" where
  "NewAggregate errlist =
     (case List.map_filter (\<lambda>e. e) errlist of
        [] \<Rightarrow> None
      | e # errs \<Rightarrow> Some (Aggregate (e # errs)))"

text \<open>\<open>fsnotify.Create\<close>, the first bit of the \<open>uint32\<close> of an event's operations.\<close>

definition fsnotify_Create :: "32 word" where
  "fsnotify_Create = 1"

text \<open>\<open>time.Second\<close>, a \<open>time.Duration\<close>, in nanoseconds.\<close>

definition Second :: int where
  "Second = 1000000000"

subsection \<open>validateFlags and loadConfig\<close>

text \<open>
  Lines 159 to 169. \<open>config.Flags.Plugin\<close>, \<open>DeviceListStrategy\<close> and \<open>DeviceIDStrategy\<close>
  are pointers, dereferenced in this order. The first result of
  \<open>NewDeviceListStrategies\<close> is dropped by the source.
\<close>

definition validateFlags :: "('w, 'c, 'f, 'dc, 'pm) externals \<Rightarrow> Config \<Rightarrow> error option go" where
  "validateFlags X config =
     (case Plugin (Flags config) of
        None \<Rightarrow> Panic
      | Some plugin \<Rightarrow>
          (case DeviceListStrategy plugin of
             None \<Rightarrow> Panic
           | Some strategies \<Rightarrow>
               (case NewDeviceListStrategies X strategies of
                  Some err \<Rightarrow>
                    Return (Some (FmtErrorf ''invalid --device-list-strategy option: '' err))
                | None \<Rightarrow>
                    (case DeviceIDStrategy plugin of
                       None \<Rightarrow> Panic
                     | Some strategy \<Rightarrow>
                         if strategy \<noteq> DeviceIDStrategyUUID \<and> strategy \<noteq> DeviceIDStrategyIndex
                         then Return (Some (ErrorString
                                (''invalid --device-id-strategy option: '' @ strategy)))
                         else Return None))))"

text \<open>Lines 171 to 182. \<open>NewConfig\<close> reads the flags, the environment and the file.\<close>

definition loadConfig ::
  "('w, 'c, 'f, 'dc, 'pm) externals \<Rightarrow> 'c \<Rightarrow> 'f \<Rightarrow> 'w \<Rightarrow> (error + Config) go" where
  "loadConfig X c flags w =
     (case NewConfig X c flags w of
        Inl err \<Rightarrow> Return (Inl (FmtErrorf ''unable to finalize config: '' err))
      | Inr config \<Rightarrow>
          (case validateFlags X config of
             Panic \<Rightarrow> Panic
           | Return (Some err) \<Rightarrow> Return (Inl (FmtErrorf ''unable to validate flags: '' err))
           | Return None \<Rightarrow> Return (Inr (config\<lparr>Flags := (Flags config)\<lparr>GFD := None\<rparr>\<rparr>))))"

subsection \<open>The state around the supervisor\<close>

text \<open>
  \<open>world\<close> is the state of the outside; \<open>calls\<close> records every \<open>Start\<close> and \<open>Stop\<close>
  call on a handle, in order; \<open>klog\<close> is the log. \<open>time.After\<close> makes a new channel at
  every call: \<open>timers\<close> holds the delay of every channel made so far, a channel is its
  index there, and \<open>expired\<close> lists the channels whose timer has fired.
\<close>

datatype call = CallStart nat | CallStop nat

record 'w env =
  world :: 'w
  calls :: "call list"
  klog :: "logline list"
  timers :: "int list"
  expired :: "nat list"

definition klogf :: "logline \<Rightarrow> 'w env \<Rightarrow> 'w env" where
  "klogf l s = s\<lparr>klog := klog s @ [l]\<rparr>"

definition extern :: "('w \<Rightarrow> 'a \<times> 'w) \<Rightarrow> 'w env \<Rightarrow> 'a \<times> 'w env" where
  "extern f s = (case f (world s) of (r, w) \<Rightarrow> (r, s\<lparr>world := w\<rparr>))"

definition callStart :: "'w plugin \<Rightarrow> 'w env \<Rightarrow> error option \<times> 'w env" where
  "callStart p s =
     (case Start p (world s) of
        (err, w) \<Rightarrow> (err, s\<lparr>world := w, calls := calls s @ [CallStart (ident p)]\<rparr>))"

definition callStop :: "'w plugin \<Rightarrow> 'w env \<Rightarrow> error option \<times> 'w env" where
  "callStop p s =
     (case Stop p (world s) of
        (err, w) \<Rightarrow> (err, s\<lparr>world := w, calls := calls s @ [CallStop (ident p)]\<rparr>))"

definition time_After :: "int \<Rightarrow> 'w env \<Rightarrow> nat \<times> 'w env" where
  "time_After d s = (length (timers s), s\<lparr>timers := timers s @ [d]\<rparr>)"

subsection \<open>stopPlugins\<close>

text \<open>
  Lines 337 to 345. \<open>stopLoop\<close> is the \<open>range\<close> loop, with the slice \<open>errs\<close> as it
  grows: it returns the results of the \<open>Stop\<close> calls in the order of the calls.
\<close>

fun stopLoop :: "'w plugin list \<Rightarrow> error option list \<Rightarrow> 'w env \<Rightarrow> error option list \<times> 'w env" where
  "stopLoop [] errs s = (errs, s)"
| "stopLoop (p # ps) errs s =
     (case callStop p s of (err, s1) \<Rightarrow> stopLoop ps (errs @ [err]) s1)"

definition stopPlugins :: "'w plugin list \<Rightarrow> 'w env \<Rightarrow> error option \<times> 'w env" where
  "stopPlugins plugins s =
     (case stopLoop plugins [] (klogf (Log Info ''Stopping plugins.'' []) s) of
        (errs, s1) \<Rightarrow> (NewAggregate errs, s1))"

subsection \<open>startPlugins\<close>

text \<open>
  Lines 269 to 308 of \<open>startPlugins\<close>: from the configuration to the set of plugins.
  The result is \<open>Inl\<close> the error that \<open>startPlugins\<close> returns, or \<open>Inr\<close> the plugins.
\<close>

definition constructPlugins ::
  "('w, 'c, 'f, 'dc, 'pm) externals \<Rightarrow> 'c \<Rightarrow> 'f \<Rightarrow> 'w env
     \<Rightarrow> (error + 'w plugin list) go \<times> 'w env" where
  "constructPlugins X c flags s =
     (let s1 = klogf (Log Info ''Loading configuration.'' []) s in
      case loadConfig X c flags (world s1) of
        Panic \<Rightarrow> (Panic, s1)
      | Return (Inl err) \<Rightarrow> (Return (Inl (FmtErrorf ''unable to load config: '' err)), s1)
      | Return (Inr config) \<Rightarrow>
         (case disableResourceRenamingInConfig (DefaultSharedRename X) config of
            (config1, logs) \<Rightarrow>
         (case extern (generateDeviceConfigFromNvidia X config1 c flags)
                 (s1\<lparr>klog := klog s1 @ logs\<rparr>) of
            (Inl err, s2) \<Rightarrow>
              (Return (Inl err), klogf (Log Error ''failed to load config file %s'' [ArgError err]) s2)
          | (Inr devConfig, s2) \<Rightarrow>
         (case extern (AddDefaultResourcesToConfig X devConfig)
                 (klogf (Log Info ''Updating config with default resource matching patterns.'' []) s2) of
            (Inl err, s3) \<Rightarrow>
              (Return (Inl (FmtErrorf ''unable to add default resources to config: '' err)), s3)
          | (Inr devConfig1, s3) \<Rightarrow>
         (case MarshalIndent X devConfig1 of
            Inl err \<Rightarrow> (Return (Inl (FmtErrorf ''failed to marshal config to JSON: '' err)), s3)
          | Inr configJSON \<Rightarrow>
         (case extern (NewPluginManager X devConfig1)
                 (klogf (Log Info ''Retrieving plugins.'' [])
                   (klogf (Log Info ([CHR 0x0A] @ ''Running with config:'' @ [CHR 0x0A] @ ''%v'')
                             [ArgString configJSON]) s3)) of
            (Inl err, s4) \<Rightarrow> (Return (Inl (FmtErrorf ''error creating plugin manager: '' err)), s4)
          | (Inr pluginManager, s4) \<Rightarrow>
         (case extern (GetPlugins X pluginManager) s4 of
            (Inl err, s5) \<Rightarrow> (Return (Inl (FmtErrorf ''error getting plugins: '' err)), s5)
          | (Inr plugins, s5) \<Rightarrow> (Return (Inr plugins), s5))))))))"

definition msgsKubelet :: "logline list" where
  "msgsKubelet =
     [Log Error ''Could not contact Kubelet. Did you enable the device plugin feature gate?'' [],
      Log Error ''You can check the prerequisites at: https://github.com/NVIDIA/k8s-device-plugin#prerequisites'' [],
      Log Error ''You can learn how to set the runtime at: https://github.com/NVIDIA/k8s-device-plugin#quick-start'' []]"

text \<open>
  The loop of lines 313 to 328. The first component of the result is True when a
  \<open>Start\<close> failed and the loop returned from \<open>startPlugins\<close>; the second is \<open>started\<close>.
\<close>

fun startLoop :: "'w plugin list \<Rightarrow> nat \<Rightarrow> 'w env \<Rightarrow> (bool \<times> nat) \<times> 'w env" where
  "startLoop [] started s = ((False, started), s)"
| "startLoop (p # ps) started s =
     (if length (plugin_Devices p (world s)) = 0 then startLoop ps started s
      else (case callStart p s of
              (Some err, s1) \<Rightarrow> ((True, started), s1\<lparr>klog := klog s1 @ msgsKubelet\<rparr>)
            | (None, s1) \<Rightarrow> startLoop ps (started + 1) s1))"

text \<open>
  Lines 268 to 335. The result is the triple that the function returns: the plugins
  (the nil slice is the empty list), the flag that asks for a retry, and the error.
\<close>

definition startPlugins ::
  "('w, 'c, 'f, 'dc, 'pm) externals \<Rightarrow> 'c \<Rightarrow> 'f \<Rightarrow> bool \<Rightarrow> 'w env
     \<Rightarrow> ('w plugin list \<times> bool \<times> error option) go \<times> 'w env" where
  "startPlugins X c flags restarting s =
     (case constructPlugins X c flags s of
        (Panic, s1) \<Rightarrow> (Panic, s1)
      | (Return (Inl err), s1) \<Rightarrow> (Return ([], False, Some err), s1)
      | (Return (Inr plugins), s1) \<Rightarrow>
          (case startLoop plugins 0 s1 of
             ((True, started), s2) \<Rightarrow> (Return (plugins, True, None), s2)
           | ((False, started), s2) \<Rightarrow>
               (Return (plugins, False, None),
                if started = 0
                then klogf (Log Info ''No devices found. Waiting indefinitely.'' []) s2
                else s2)))"

subsection \<open>start: the supervisor\<close>

text \<open>
  The local variables of \<open>start\<close> that live across the passes. \<open>restartTimeout\<close> is a
  channel (an index into \<open>timers\<close>) or nil.
\<close>

record 'w locals =
  restarting :: bool
  restartTimeout :: "nat option"
  plugins :: "'w plugin list"
  restartPlugins :: bool

text \<open>
  What has become of \<open>start\<close> when the events are used up: it has returned an error or
  nil, it is blocked in the \<open>select\<close> with its variables, or it has panicked.
\<close>

datatype 'w outcome = Returned "error option" | Blocked (locals_of: "'w locals") | Panicked

text \<open>Lines 212 to 223: from \<open>Starting Plugins.\<close> to \<open>restarting = true\<close>.\<close>

definition startPass ::
  "('w, 'c, 'f, 'dc, 'pm) externals \<Rightarrow> 'c \<Rightarrow> 'f \<Rightarrow> 'w locals \<Rightarrow> 'w env \<Rightarrow> 'w outcome \<times> 'w env" where
  "startPass X c flags v s =
     (case startPlugins X c flags (restarting v) (klogf (Log Info ''Starting Plugins.'' []) s) of
        (Panic, s1) \<Rightarrow> (Panicked, s1)
      | (Return (ps, rp, Some err), s1) \<Rightarrow>
          (Returned (Some (FmtErrorf ''error starting plugins: '' err)), s1)
      | (Return (ps, rp, None), s1) \<Rightarrow>
          (if rp
           then (case time_After (30 * Second)
                        (klogf (Log Info ''Failed to start one or more plugins. Retrying in 30s...'' []) s1) of
                   (ch, s2) \<Rightarrow>
                     (Blocked (v\<lparr>plugins := ps, restartPlugins := rp,
                                 restartTimeout := Some ch, restarting := True\<rparr>), s2))
           else (Blocked (v\<lparr>plugins := ps, restartPlugins := rp, restarting := True\<rparr>), s1)))"

text \<open>Label \<open>restart\<close>: lines 203 to 223.\<close>

definition restart ::
  "('w, 'c, 'f, 'dc, 'pm) externals \<Rightarrow> 'c \<Rightarrow> 'f \<Rightarrow> 'w locals \<Rightarrow> 'w env \<Rightarrow> 'w outcome \<times> 'w env" where
  "restart X c flags v s =
     (if restarting v
      then (case stopPlugins (plugins v) s of
              (Some err, s1) \<Rightarrow>
                (Returned (Some (FmtErrorf ''error stopping plugins from previous run: '' err)), s1)
            | (None, s1) \<Rightarrow> startPass X c flags v s1)
      else startPass X c flags v s)"

text \<open>Label \<open>exit\<close>: lines 260 to 265.\<close>

definition exit :: "'w locals \<Rightarrow> 'w env \<Rightarrow> 'w outcome \<times> 'w env" where
  "exit v s =
     (case stopPlugins (plugins v) s of
        (Some err, s1) \<Rightarrow> (Returned (Some (FmtErrorf ''error stopping plugins: '' err)), s1)
      | (None, s1) \<Rightarrow> (Returned None, s1))"

text \<open>
  What the \<open>select\<close> of lines 227 to 259 can receive. \<open>TimerFires k\<close>: the timer of
  channel \<open>k\<close> fires and sends on that channel, once. The \<open>select\<close> reads the channel that
  \<open>restartTimeout\<close> holds, so it receives the value when \<open>restartTimeout\<close> is channel
  \<open>k\<close>, and a value sent on any other channel is never read. \<open>WatcherEvent name op\<close>
  comes from \<open>watcher.Events\<close>, \<open>WatcherError err\<close> from \<open>watcher.Errors\<close>, and
  \<open>OSSignal s\<close> from \<open>sigs\<close>, which is subscribed to the four signals of \<open>signal\<close>.
\<close>

datatype event =
  TimerFires nat | WatcherEvent string "32 word" | WatcherError error | OSSignal signal

text \<open>
  The loop of lines 227 to 259 on the events that arrive, in their order; a
  \<open>goto restart\<close> runs the pass and comes back to the loop. A timer that does not exist
  or has fired already cannot fire.
\<close>

fun eventLoop ::
  "('w, 'c, 'f, 'dc, 'pm) externals \<Rightarrow> 'c \<Rightarrow> 'f \<Rightarrow> event list \<Rightarrow> 'w locals \<Rightarrow> 'w env
     \<Rightarrow> 'w outcome \<times> 'w env" where
  "eventLoop X c flags [] v s = (Blocked v, s)"
| "eventLoop X c flags (TimerFires k # es) v s =
     (if k < length (timers s) \<and> k \<notin> set (expired s)
      then (if restartTimeout v = Some k
            then (case restart X c flags v (s\<lparr>expired := k # expired s\<rparr>) of
                    (Blocked v1, s1) \<Rightarrow> eventLoop X c flags es v1 s1
                  | (r, s1) \<Rightarrow> (r, s1))
            else eventLoop X c flags es v (s\<lparr>expired := k # expired s\<rparr>))
      else eventLoop X c flags es v s)"
| "eventLoop X c flags (WatcherEvent name op # es) v s =
     (if name = KubeletSocket X \<and> op AND fsnotify_Create = fsnotify_Create
      then (case restart X c flags v
                   (klogf (Log Info ''inotify: %s created, restarting.''
                             [ArgString (KubeletSocket X)]) s) of
              (Blocked v1, s1) \<Rightarrow> eventLoop X c flags es v1 s1
            | (r, s1) \<Rightarrow> (r, s1))
      else eventLoop X c flags es v s)"
| "eventLoop X c flags (WatcherError err # es) v s =
     eventLoop X c flags es v (klogf (Log Error ''inotify: %s'' [ArgError err]) s)"
| "eventLoop X c flags (OSSignal sig # es) v s =
     (case sig of
        SIGHUP \<Rightarrow>
          (case restart X c flags v (klogf (Log Info ''Received SIGHUP, restarting.'' []) s) of
             (Blocked v1, s1) \<Rightarrow> eventLoop X c flags es v1 s1
           | (r, s1) \<Rightarrow> (r, s1))
      | _ \<Rightarrow> exit v (klogf (Log Info (''Received signal '' @ [CHR 0x22] @ ''%v'' @ [CHR 0x22] @ '', shutting down.'')
                         [ArgSignal sig]) s))"

text \<open>
  Lines 184 to 266, from a state \<open>w\<close> of the outside and on the events that arrive.
  The deferred \<open>watcher.Close\<close> runs when \<open>start\<close> returns or panics.
\<close>

definition start ::
  "('w, 'c, 'f, 'dc, 'pm) externals \<Rightarrow> 'c \<Rightarrow> 'f \<Rightarrow> event list \<Rightarrow> 'w \<Rightarrow> 'w outcome \<times> 'w env" where
  "start X c flags events w =
     (let s0 = \<lparr>world = InitGlobalClient X w, calls = [], klog = [Log Info ''Starting FS watcher.'' []],
                timers = [], expired = []\<rparr>
      in case extern (newFSWatcher X (DevicePluginPath X)) s0 of
           (Some err, s1) \<Rightarrow> (Returned (Some (FmtErrorf ''failed to create FS watcher: '' err)), s1)
         | (None, s1) \<Rightarrow>
             (case restart X c flags
                     \<lparr>restarting = False, restartTimeout = None, plugins = [], restartPlugins = False\<rparr>
                     (klogf (Log Info ''Starting OS watcher.'' [])
                       (klogf (Log Info ''Start working on node %s'' [ArgString (Getenv_NodeName X w)]) s1)) of
                (Blocked v, s2) \<Rightarrow>
                  (case eventLoop X c flags events v s2 of
                     (Blocked v1, s3) \<Rightarrow> (Blocked v1, s3)
                   | (r, s3) \<Rightarrow> (r, s3\<lparr>world := watcher_Close X (world s3)\<rparr>))
              | (r, s2) \<Rightarrow> (r, s2\<lparr>world := watcher_Close X (world s2)\<rparr>)))"

text \<open>
  Lines 152 to 156 of \<open>main\<close>, when \<open>c.Run\<close> runs the action, which is \<open>start\<close>: the exit
  status of the process, or \<open>None\<close> while it runs. A panic ends a Go process with
  status 2.
\<close>

definition exitStatus :: "'w outcome \<Rightarrow> nat option" where
  "exitStatus r =
     (case r of
        Returned None \<Rightarrow> Some 0
      | Returned (Some err) \<Rightarrow> Some 1
      | Blocked v \<Rightarrow> None
      | Panicked \<Rightarrow> Some 2)"

definition main ::
  "('w, 'c, 'f, 'dc, 'pm) externals \<Rightarrow> 'c \<Rightarrow> 'f \<Rightarrow> event list \<Rightarrow> 'w \<Rightarrow> nat option \<times> 'w env" where
  "main X c flags events w =
     (case start X c flags events w of
        (r, s) \<Rightarrow>
          (exitStatus r,
           case r of
             Returned (Some err) \<Rightarrow> klogf (Log Error ''%v'' [ArgError err]) s
           | _ \<Rightarrow> s))"

subsection \<open>Definitions for the proofs and example inputs\<close>

text \<open>
  \<open>policyRename\<close> is the rename that the policy asks for, and \<open>normalEntry\<close> what one
  iteration of the loop over the time-slicing resources leaves of an entry.
  \<open>newestTimer\<close> says that \<open>restartTimeout\<close> holds the channel made last, if any.
  The constants \<open>ex_\<close> are inputs on which the theorems are run: \<open>ex_externals\<close> are
  functions of the outside whose state counts the calls of \<open>GetPlugins\<close>, and whose
  plugins at each pass are given by its second argument.
\<close>

text \<open>
  What the \<open>Stop\<close> methods themselves return, apart from the loop of stopPlugins:
  \<open>stopResults ps w\<close> is the result of \<open>Stop\<close> of each plugin of \<open>ps\<close> in turn, from
  the state \<open>w\<close> of the outside, each call working on the state that the call before
  it left; \<open>stopWorld ps w\<close> is the state that the last call leaves.
\<close>

fun stopResults :: "'w plugin list \<Rightarrow> 'w \<Rightarrow> error option list" where
  "stopResults [] w = []"
| "stopResults (p # ps) w = fst (Stop p w) # stopResults ps (snd (Stop p w))"

fun stopWorld :: "'w plugin list \<Rightarrow> 'w \<Rightarrow> 'w" where
  "stopWorld [] w = w"
| "stopWorld (p # ps) w = stopWorld ps (snd (Stop p w))"

definition policyRename :: "(string \<Rightarrow> string) \<Rightarrow> bool \<Rightarrow> ReplicatedResource \<Rightarrow> string" where
  "policyRename d b r = (if b then d (Name r) else '''')"

definition normalEntry :: "(string \<Rightarrow> string) \<Rightarrow> bool \<Rightarrow> ReplicatedResource \<Rightarrow> ReplicatedResource" where
  "normalEntry d b r =
     r\<lparr>Rename := policyRename d b r,
       Devices := (if Devices_All (Devices r) then Devices r
                   else (Devices r)\<lparr>Devices_All := True, Devices_Count := 0, Devices_List := None\<rparr>)\<rparr>"

definition ex_rename :: "string \<Rightarrow> string" where
  "ex_rename n = n @ ''.shared''"

definition ex_resource :: "string \<Rightarrow> bool \<Rightarrow> int \<Rightarrow> ReplicatedResource" where
  "ex_resource rename all n =
     \<lparr>Name = ''nvidia.com/gpu'', Rename = rename,
      Devices = \<lparr>Devices_All = all, Devices_Count = n, Devices_List = None\<rparr>, Replicas = 2\<rparr>"

definition ex_pluginFlags :: "string list \<Rightarrow> string \<Rightarrow> PluginCommandLineFlags" where
  "ex_pluginFlags strategies strategy =
     \<lparr>PassDeviceSpecs = Some False, DeviceListStrategy = Some strategies,
      DeviceIDStrategy = Some strategy, CDIAnnotationPrefix = Some ''cdi.k8s.io/'',
      NvidiaCTKPath = Some ''/usr/bin/nvidia-ctk'', ContainerDriverRoot = Some ''/driver-root''\<rparr>"

definition ex_gfdFlags :: GFDCommandLineFlags where
  "ex_gfdFlags =
     \<lparr>Oneshot = Some False, NoTimestamp = Some False, SleepInterval = Some 60,
      OutputFile = Some ''/etc/kubernetes/node-feature-discovery/features.d/gfd'',
      MachineTypeFile = Some ''/sys/class/dmi/id/product_name''\<rparr>"

definition ex_config :: "string list \<Rightarrow> string \<Rightarrow> bool \<Rightarrow> ReplicatedResource list \<Rightarrow> Config" where
  "ex_config strategies strategy renameByDefault rs =
     \<lparr>Version = ''v1'',
      Flags = \<lparr>MigStrategy = Some ''none'', FailOnInitError = Some True,
               NvidiaDriverRoot = Some ''/'', GDSEnabled = Some False, MOFEDEnabled = Some False,
               Plugin = Some (ex_pluginFlags strategies strategy), GFD = Some ex_gfdFlags\<rparr>,
      Resources = \<lparr>GPUs = Some [\<lparr>Pattern = ''*'', Resource_Name = ''nvidia.com/gpu''\<rparr>], MIGs = None\<rparr>,
      Sharing = \<lparr>TimeSlicing = \<lparr>RenameByDefault = renameByDefault,
                   FailRequestsGreaterThanOne = False, TimeSlicing_Resources = Some rs\<rparr>\<rparr>\<rparr>"

fun ex_NewDeviceListStrategies :: "string list \<Rightarrow> error option" where
  "ex_NewDeviceListStrategies [] = None"
| "ex_NewDeviceListStrategies (s # ss) =
     (if s = ''envvar'' \<or> s = ''volume-mounts'' \<or> s = ''cdi-annotations''
      then ex_NewDeviceListStrategies ss
      else Some (ErrorString (''invalid strategy: '' @ s)))"

definition ex_plugin :: "nat \<Rightarrow> string list \<Rightarrow> error option \<Rightarrow> error option \<Rightarrow> nat plugin" where
  "ex_plugin i devices startErr stopErr =
     \<lparr>ident = i, plugin_Devices = (\<lambda>w. devices), Start = (\<lambda>w. (startErr, w)),
      Stop = (\<lambda>w. (stopErr, w))\<rparr>"

definition ex_externals ::
  "Config \<Rightarrow> (nat \<Rightarrow> nat plugin list) \<Rightarrow> (nat, unit, unit, unit, unit) externals" where
  "ex_externals config plugs =
     \<lparr>NewConfig = (\<lambda>c flags w. Inr config),
      NewDeviceListStrategies = ex_NewDeviceListStrategies,
      DefaultSharedRename = ex_rename,
      generateDeviceConfigFromNvidia = (\<lambda>config c flags w. (Inr (), w)),
      AddDefaultResourcesToConfig = (\<lambda>devConfig w. (Inr devConfig, w)),
      MarshalIndent = (\<lambda>devConfig. Inr ''{}''),
      NewPluginManager = (\<lambda>devConfig w. (Inr (), w)),
      GetPlugins = (\<lambda>pluginManager w. (Inr (plugs w), Suc w)),
      Getenv_NodeName = (\<lambda>w. ''node-1''),
      InitGlobalClient = (\<lambda>w. w),
      newFSWatcher = (\<lambda>path w. (None, w)),
      watcher_Close = (\<lambda>w. w),
      DevicePluginPath = ''/var/lib/kubelet/device-plugins/'',
      KubeletSocket = ''/var/lib/kubelet/device-plugins/kubelet.sock''\<rparr>"

definition ownedIdents :: "'w outcome \<Rightarrow> nat list option" where
  "ownedIdents r = (case r of Blocked v \<Rightarrow> Some (map ident (plugins v)) | _ \<Rightarrow> None)"

definition lastPassDegraded :: "'w outcome \<Rightarrow> bool option" where
  "lastPassDegraded r = (case r of Blocked v \<Rightarrow> Some (restartPlugins v) | _ \<Rightarrow> None)"

definition heldTimer :: "'w outcome \<Rightarrow> nat option" where
  "heldTimer r = (case r of Blocked v \<Rightarrow> restartTimeout v | _ \<Rightarrow> None)"

definition newestTimer :: "'w locals \<Rightarrow> 'w env \<Rightarrow> bool" where
  "newestTimer v s =
     (restartTimeout v = (if timers s = [] then None else Some (length (timers s) - 1)))"

definition ex_validConfig :: Config where
  "ex_validConfig = ex_config [''envvar''] ''uuid'' False []"

definition ex_noPlugins :: "nat \<Rightarrow> nat plugin list" where
  "ex_noPlugins w = []"

definition ex_noDevices :: "nat \<Rightarrow> nat plugin list" where
  "ex_noDevices w = [ex_plugin 0 [] None None, ex_plugin 1 [] None None]"

definition ex_healthy :: "nat \<Rightarrow> nat plugin list" where
  "ex_healthy w =
     [ex_plugin (2 * w) [''GPU-0''] None None, ex_plugin (2 * w + 1) [''GPU-1''] None None]"

definition ex_stopFails :: "nat \<Rightarrow> nat plugin list" where
  "ex_stopFails w =
     [ex_plugin (2 * w) [''GPU-0''] None None,
      ex_plugin (2 * w + 1) [''GPU-1''] None (Some (ErrorString ''stop failed''))]"

definition ex_secondFails :: "nat \<Rightarrow> nat plugin list" where
  "ex_secondFails w =
     [ex_plugin 0 [''GPU-0''] None None,
      ex_plugin 1 [''GPU-1''] (Some (ErrorString ''no kubelet'')) None,
      ex_plugin 2 [''GPU-2''] None None]"

definition ex_failsOnce :: "nat \<Rightarrow> nat plugin list" where
  "ex_failsOnce w =
     [ex_plugin w [''GPU-0''] (if w = 0 then Some (ErrorString ''no kubelet'') else None) None]"

definition ex_env :: "nat env" where
  "ex_env = \<lparr>world = 0, calls = [], klog = [], timers = [], expired = []\<rparr>"

definition ex_locals :: "nat locals" where
  "ex_locals = \<lparr>restarting = False, restartTimeout = None, plugins = [], restartPlugins = False\<rparr>"

section \<open>The configuration: normalisation and validation\<close>

lemma loop_char:
  "timeSlicingLoop d b rs x y =
     (map (normalEntry d b) rs,
      x \<or> list_ex (\<lambda>r. Rename r \<noteq> policyRename d b r) rs,
      y \<or> list_ex (\<lambda>r. \<not> Devices_All (Devices r)) rs)"
proof (induction rs arbitrary: x y)
  case Nil
  then show ?case by simp
next
  case (Cons r rs)
  show ?case
    by (auto simp: Cons.IH Let_def normalEntry_def policyRename_def)
qed

lemma normalEntry_idem: "normalEntry d b (normalEntry d b r) = normalEntry d b r"
  by (simp add: normalEntry_def policyRename_def)

lemma normalEntry_fix1: "Rename (normalEntry d b r) = policyRename d b (normalEntry d b r)"
  by (simp add: normalEntry_def policyRename_def)

lemma normalEntry_fix2: "Devices_All (Devices (normalEntry d b r))"
  by (simp add: normalEntry_def policyRename_def)

lemma range_char:
  "timeSlicingRange d b rso =
     (map_option (map (normalEntry d b)) rso,
      (case rso of None \<Rightarrow> False | Some rs \<Rightarrow> list_ex (\<lambda>r. Rename r \<noteq> policyRename d b r) rs),
      (case rso of None \<Rightarrow> False | Some rs \<Rightarrow> list_ex (\<lambda>r. \<not> Devices_All (Devices r)) rs))"
  by (simp add: timeSlicingRange_def loop_char split: option.splits)

lemma disable_char:
  "disableResourceRenamingInConfig d config =
     (config\<lparr>Resources := (Resources config)\<lparr>GPUs := None, MIGs := None\<rparr>,
             Sharing := (Sharing config)\<lparr>TimeSlicing := (TimeSlicing (Sharing config))
               \<lparr>TimeSlicing_Resources :=
                  map_option (map (normalEntry d (RenameByDefault (TimeSlicing (Sharing config)))))
                    (TimeSlicing_Resources (TimeSlicing (Sharing config)))\<rparr>\<rparr>\<rparr>,
      (if len (GPUs (Resources config)) > 0 \<or> len (MIGs (Resources config)) > 0
       then [msgResources] else [])
      @ (if (case TimeSlicing_Resources (TimeSlicing (Sharing config)) of None \<Rightarrow> False
             | Some rs \<Rightarrow> list_ex (\<lambda>r. Rename r \<noteq> policyRename d (RenameByDefault (TimeSlicing (Sharing config))) r) rs)
         then [msgRename] else [])
      @ (if (case TimeSlicing_Resources (TimeSlicing (Sharing config)) of None \<Rightarrow> False
             | Some rs \<Rightarrow> list_ex (\<lambda>r. \<not> Devices_All (Devices r)) rs)
         then [msgDevices] else []))"
  by (cases "TimeSlicing_Resources (TimeSlicing (Sharing config))")
     (simp_all add: disableResourceRenamingInConfig_def Let_def range_char)

text \<open>
  Claim C6. disableResourceRenamingInConfig is idempotent: run on its own result, it
  returns that configuration unchanged and logs nothing, the loop over the time-slicing
  resources sets neither \<open>setsNonDefaultRename\<close> nor \<open>setsDevices\<close>, and the two
  resource lists are empty, so the first message is not logged either.
\<close>

theorem normalization_idempotent:
  "disableResourceRenamingInConfig d (fst (disableResourceRenamingInConfig d config))
     = (fst (disableResourceRenamingInConfig d config), [])
   \<and> timeSlicingRange d
        (RenameByDefault (TimeSlicing (Sharing (fst (disableResourceRenamingInConfig d config)))))
        (TimeSlicing_Resources (TimeSlicing (Sharing (fst (disableResourceRenamingInConfig d config)))))
     = (TimeSlicing_Resources (TimeSlicing (Sharing (fst (disableResourceRenamingInConfig d config)))),
        False, False)
   \<and> len (GPUs (Resources (fst (disableResourceRenamingInConfig d config)))) = 0
   \<and> len (MIGs (Resources (fst (disableResourceRenamingInConfig d config)))) = 0"
  by (cases "TimeSlicing_Resources (TimeSlicing (Sharing config))")
     (simp_all add: disable_char range_char len_def
        list_ex_iff normalEntry_idem normalEntry_fix1[symmetric] normalEntry_fix2 o_def)

text \<open>
  Claim C5, as amended. For every entry of the time-slicing resource list, after
  disableResourceRenamingInConfig: \<open>Devices.All\<close> is true, \<open>Rename\<close> is the default of the
  policy (empty when \<open>RenameByDefault\<close> is false, the default shared rename of the
  entry's name when it is true), and the name and the replicas are as before. An entry
  that came with \<open>Devices.All\<close> false has \<open>Count\<close> 0 and \<open>List\<close> nil; an entry that came
  with \<open>Devices.All\<close> true keeps its \<open>Devices\<close>, whatever \<open>Count\<close> and \<open>List\<close> it held.
  The function has no error result; it logs one warning when some rename was corrected
  and one when some device selection was, after the message on the resource lists.
\<close>

theorem sharing_policy_enforced:
  assumes "TimeSlicing_Resources (TimeSlicing (Sharing config)) = Some rs"
      and "i < length rs"
  shows "\<exists>rs'. TimeSlicing_Resources
                 (TimeSlicing (Sharing (fst (disableResourceRenamingInConfig d config)))) = Some rs'
           \<and> length rs' = length rs
           \<and> Devices_All (Devices (rs' ! i))
           \<and> Rename (rs' ! i) =
               (if RenameByDefault (TimeSlicing (Sharing config)) then d (Name (rs ! i)) else '''')
           \<and> Name (rs' ! i) = Name (rs ! i)
           \<and> Replicas (rs' ! i) = Replicas (rs ! i)
           \<and> (if Devices_All (Devices (rs ! i))
               then Devices (rs' ! i) = Devices (rs ! i)
               else Devices_Count (Devices (rs' ! i)) = 0 \<and> Devices_List (Devices (rs' ! i)) = None)
           \<and> snd (disableResourceRenamingInConfig d config) =
               (if len (GPUs (Resources config)) > 0 \<or> len (MIGs (Resources config)) > 0
                then [msgResources] else [])
               @ (if \<exists>r \<in> set rs. Rename r \<noteq>
                       (if RenameByDefault (TimeSlicing (Sharing config)) then d (Name r) else '''')
                  then [msgRename] else [])
               @ (if \<exists>r \<in> set rs. \<not> Devices_All (Devices r) then [msgDevices] else [])"
  using assms
  by (simp add: disable_char normalEntry_def policyRename_def list_ex_iff)

text \<open>
  The theorem at a list of two entries, the second one with \<open>Devices.All\<close> true and
  \<open>Count\<close> 3.
\<close>

theorem sharing_policy_enforced_witness:
  "TimeSlicing_Resources (TimeSlicing (Sharing
       (ex_config [''envvar''] ''uuid'' True [ex_resource ''gpu-renamed'' False 4, ex_resource '''' True 3])))
     = Some [ex_resource ''gpu-renamed'' False 4, ex_resource '''' True 3]
   \<and> (1::nat) < length [ex_resource ''gpu-renamed'' False 4, ex_resource '''' True 3]
   \<and> TimeSlicing_Resources (TimeSlicing (Sharing (fst (disableResourceRenamingInConfig ex_rename
       (ex_config [''envvar''] ''uuid'' True [ex_resource ''gpu-renamed'' False 4, ex_resource '''' True 3])))))
     = Some [ex_resource ''nvidia.com/gpu.shared'' True 0, ex_resource ''nvidia.com/gpu.shared'' True 3]
   \<and> snd (disableResourceRenamingInConfig ex_rename
       (ex_config [''envvar''] ''uuid'' True [ex_resource ''gpu-renamed'' False 4, ex_resource '''' True 3]))
     = [msgResources, msgRename, msgDevices]"
  using sharing_policy_enforced [of "ex_config [''envvar''] ''uuid'' True [ex_resource ''gpu-renamed'' False 4, ex_resource '''' True 3]"
      "[ex_resource ''gpu-renamed'' False 4, ex_resource '''' True 3]" 1 ex_rename]
  by (simp add: ex_config_def ex_resource_def ex_rename_def disableResourceRenamingInConfig_def
       timeSlicingRange_def Let_def len_def)

text \<open>
  Claim C5 as stated fails: an entry that comes with \<open>Devices.All\<close> true and \<open>Count\<close> 5
  leaves the function with \<open>Count\<close> 5.
\<close>

theorem sharing_policy_counterexample:
  "TimeSlicing_Resources (TimeSlicing (Sharing (fst (disableResourceRenamingInConfig ex_rename
       (ex_config [''envvar''] ''uuid'' False [ex_resource '''' True 5])))))
     = Some [ex_resource '''' True 5]
   \<and> Devices_Count (Devices (ex_resource '''' True 5)) = 5"
  by (simp add: ex_config_def ex_resource_def ex_rename_def disableResourceRenamingInConfig_def
       timeSlicingRange_def Let_def len_def)

text \<open>
  Claim C7. On a configuration that \<open>NewConfig\<close> returned, with its three pointers set,
  and for a set \<open>allowed\<close> of device-list strategies that \<open>NewDeviceListStrategies\<close>
  accepts the list of: validateFlags returns nil exactly when every device-list strategy
  is in \<open>allowed\<close> and the device-ID strategy is \<open>uuid\<close> or \<open>index\<close>; otherwise it
  returns an error on the invalid option (the device-list one first), and loadConfig
  fails with that error.
\<close>

theorem enum_validation:
  assumes "NewConfig X c flags w = Inr config"
      and "Plugin (Flags config) = Some pf"
      and "DeviceListStrategy pf = Some strategies"
      and "DeviceIDStrategy pf = Some strategy"
      and "(NewDeviceListStrategies X strategies = None) = (set strategies \<subseteq> allowed)"
  shows "(validateFlags X config = Return None)
           = (set strategies \<subseteq> allowed \<and> (strategy = ''uuid'' \<or> strategy = ''index''))
       \<and> (\<exists>err. validateFlags X config = Return (Some err)
             \<and> loadConfig X c flags w = Return (Inl (FmtErrorf ''unable to validate flags: '' err)))
           = (\<not> set strategies \<subseteq> allowed \<or> (strategy \<noteq> ''uuid'' \<and> strategy \<noteq> ''index''))
       \<and> (\<not> set strategies \<subseteq> allowed \<longrightarrow>
             (\<exists>err. NewDeviceListStrategies X strategies = Some err
                \<and> validateFlags X config
                    = Return (Some (FmtErrorf ''invalid --device-list-strategy option: '' err))))
       \<and> (set strategies \<subseteq> allowed \<and> strategy \<noteq> ''uuid'' \<and> strategy \<noteq> ''index'' \<longrightarrow>
             validateFlags X config
               = Return (Some (ErrorString (''invalid --device-id-strategy option: '' @ strategy))))"
  using assms
  by (auto simp: validateFlags_def loadConfig_def DeviceIDStrategyUUID_def DeviceIDStrategyIndex_def
        split: option.splits)

text \<open>
  The theorem on the device-list strategy \<open>envvar\<close> and the device-ID strategy
  \<open>gpu-index\<close>, which is refused.
\<close>

theorem enum_validation_witness:
  "NewConfig (ex_externals (ex_config [''envvar''] ''gpu-index'' False []) ex_noPlugins) () () 0
     = Inr (ex_config [''envvar''] ''gpu-index'' False [])
   \<and> Plugin (Flags (ex_config [''envvar''] ''gpu-index'' False []))
       = Some (ex_pluginFlags [''envvar''] ''gpu-index'')
   \<and> DeviceListStrategy (ex_pluginFlags [''envvar''] ''gpu-index'') = Some [''envvar'']
   \<and> DeviceIDStrategy (ex_pluginFlags [''envvar''] ''gpu-index'') = Some ''gpu-index''
   \<and> (NewDeviceListStrategies (ex_externals (ex_config [''envvar''] ''gpu-index'' False []) ex_noPlugins)
         [''envvar''] = None)
       = (set [''envvar''] \<subseteq> {''envvar'', ''volume-mounts'', ''cdi-annotations''})
   \<and> validateFlags (ex_externals (ex_config [''envvar''] ''gpu-index'' False []) ex_noPlugins)
         (ex_config [''envvar''] ''gpu-index'' False [])
       = Return (Some (ErrorString ''invalid --device-id-strategy option: gpu-index''))"
  using enum_validation [of "ex_externals (ex_config [''envvar''] ''gpu-index'' False []) ex_noPlugins"
      "()" "()" 0 "ex_config [''envvar''] ''gpu-index'' False []"
      "ex_pluginFlags [''envvar''] ''gpu-index''" "[''envvar'']" "''gpu-index''"
      "{''envvar'', ''volume-mounts'', ''cdi-annotations''}"]
  by (simp add: ex_externals_def ex_config_def ex_pluginFlags_def)

text \<open>
  Claim C10. When loadConfig returns a configuration, it is the configuration that
  \<open>NewConfig\<close> returned and validateFlags accepted, with \<open>Flags.GFD\<close> set to nil and
  nothing else changed.
\<close>

theorem loadConfig_clears_GFD:
  assumes "loadConfig X c flags w = Return (Inr config)"
  shows "GFD (Flags config) = None
       \<and> (\<exists>config0. NewConfig X c flags w = Inr config0
             \<and> validateFlags X config0 = Return None
             \<and> config = config0\<lparr>Flags := (Flags config0)\<lparr>GFD := None\<rparr>\<rparr>)"
  using assms
  by (auto simp: loadConfig_def split: sum.splits go.splits option.splits)

text \<open>
  The theorem on a valid configuration whose \<open>Flags.GFD\<close> is set.
\<close>

theorem loadConfig_clears_GFD_witness:
  "loadConfig (ex_externals (ex_config [''envvar''] ''uuid'' False []) ex_noPlugins) () () 0
     = Return (Inr ((ex_config [''envvar''] ''uuid'' False [])
         \<lparr>Flags := (Flags (ex_config [''envvar''] ''uuid'' False []))\<lparr>GFD := None\<rparr>\<rparr>))
   \<and> GFD (Flags (ex_config [''envvar''] ''uuid'' False [])) = Some ex_gfdFlags
   \<and> GFD (Flags ((ex_config [''envvar''] ''uuid'' False [])
         \<lparr>Flags := (Flags (ex_config [''envvar''] ''uuid'' False []))\<lparr>GFD := None\<rparr>\<rparr>)) = None"
  using loadConfig_clears_GFD [of "ex_externals (ex_config [''envvar''] ''uuid'' False []) ex_noPlugins"
      "()" "()" 0 "(ex_config [''envvar''] ''uuid'' False [])
         \<lparr>Flags := (Flags (ex_config [''envvar''] ''uuid'' False []))\<lparr>GFD := None\<rparr>\<rparr>"]
  by (simp add: ex_externals_def ex_config_def ex_pluginFlags_def loadConfig_def validateFlags_def
        DeviceIDStrategyUUID_def DeviceIDStrategyIndex_def)

section \<open>Stopping the plugins\<close>

lemma klogf_frame [simp]:
  "world (klogf l s) = world s" "calls (klogf l s) = calls s"
  "timers (klogf l s) = timers s" "expired (klogf l s) = expired s"
  by (simp_all add: klogf_def)

lemma extern_frame:
  "extern f s = (r, s1) \<Longrightarrow>
     calls s1 = calls s \<and> timers s1 = timers s \<and> expired s1 = expired s \<and> klog s1 = klog s"
  by (auto simp: extern_def split: prod.splits)

lemma callStop_frame:
  "callStop p s = (err, s1) \<Longrightarrow>
     calls s1 = calls s @ [CallStop (ident p)] \<and> timers s1 = timers s \<and> expired s1 = expired s
     \<and> klog s1 = klog s \<and> err = fst (Stop p (world s)) \<and> world s1 = snd (Stop p (world s))"
  by (auto simp: callStop_def split: prod.splits)

lemma stopLoop_frame:
  "stopLoop ps errs s = (errs1, s1) \<Longrightarrow>
     calls s1 = calls s @ map (\<lambda>p. CallStop (ident p)) ps
     \<and> timers s1 = timers s \<and> expired s1 = expired s \<and> klog s1 = klog s"
proof (induction ps arbitrary: errs s)
  case Nil
  then show ?case by simp
next
  case (Cons p ps)
  obtain err s2 where c: "callStop p s = (err, s2)" by (cases "callStop p s")
  with Cons.prems have "stopLoop ps (errs @ [err]) s2 = (errs1, s1)" by simp
  from Cons.IH [OF this] callStop_frame [OF c] show ?case by simp
qed

lemma stopPlugins_frame:
  "stopPlugins ps s = (r, s1) \<Longrightarrow>
     calls s1 = calls s @ map (\<lambda>p. CallStop (ident p)) ps
     \<and> timers s1 = timers s \<and> expired s1 = expired s"
  using stopLoop_frame [of ps "[]" "klogf (Log Info ''Stopping plugins.'' []) s"]
  by (auto simp: stopPlugins_def split: prod.splits)

lemma stopLoop_eq:
  "stopLoop ps errs s =
     (errs @ stopResults ps (world s),
      s\<lparr>world := stopWorld ps (world s),
        calls := calls s @ map (\<lambda>p. CallStop (ident p)) ps\<rparr>)"
proof (induction ps arbitrary: errs s)
  case Nil
  then show ?case by simp
next
  case (Cons p ps)
  show ?case
    by (simp add: callStop_def case_prod_beta Cons.IH)
qed

lemma stopPlugins_eq:
  "stopPlugins ps s =
     (NewAggregate (stopResults ps (world s)),
      s\<lparr>world := stopWorld ps (world s),
        calls := calls s @ map (\<lambda>p. CallStop (ident p)) ps,
        klog := klog s @ [Log Info ''Stopping plugins.'' []]\<rparr>)"
  by (simp add: stopPlugins_def stopLoop_eq klogf_def)

lemma NewAggregate_None_iff: "(NewAggregate errs = None) = (\<forall>e \<in> set errs. e = None)"
proof (induction errs)
  case Nil
  then show ?case by (simp add: NewAggregate_def)
next
  case (Cons e errs)
  then show ?case
    by (cases e) (auto simp: NewAggregate_def split: list.splits)
qed

lemma NewAggregate_Some:
  "\<not> (\<forall>e \<in> set errs. e = None) \<Longrightarrow>
     NewAggregate errs = Some (Aggregate (List.map_filter (\<lambda>e. e) errs))"
  using NewAggregate_None_iff [of errs]
  by (auto simp: NewAggregate_def split: list.splits)

lemma stopResults_length: "length (stopResults ps w) = length ps"
  by (induction ps arbitrary: w) simp_all

lemma stopResults_nth:
  "i < length ps \<Longrightarrow> stopResults ps w ! i = fst (Stop (ps ! i) (stopWorld (take i ps) w))"
proof (induction ps arbitrary: i w)
  case Nil
  then show ?case by simp
next
  case (Cons p ps)
  then show ?case by (cases i) simp_all
qed

text \<open>
  Claim C9. stopPlugins calls \<open>Stop\<close> once on every plugin of its list, in the order of
  the list, whatever the earlier calls returned, each call on the state that the call
  before it left. The list \<open>errs\<close> that its loop builds is the list of what these
  \<open>Stop\<close> calls returned, one entry per plugin. The aggregate it returns is nil exactly
  when every \<open>Stop\<close> call returned nil, and is otherwise the aggregate of the errors
  that were returned, the nil entries dropped.
\<close>

theorem stopPlugins_stops_all:
  "calls (snd (stopPlugins ps s)) = calls s @ map (\<lambda>p. CallStop (ident p)) ps
   \<and> world (snd (stopPlugins ps s)) = stopWorld ps (world s)
   \<and> length (stopResults ps (world s)) = length ps
   \<and> (\<forall>i < length ps.
         stopResults ps (world s) ! i = fst (Stop (ps ! i) (stopWorld (take i ps) (world s))))
   \<and> fst (stopLoop ps [] (klogf (Log Info ''Stopping plugins.'' []) s)) = stopResults ps (world s)
   \<and> (fst (stopPlugins ps s) = None) = (\<forall>e \<in> set (stopResults ps (world s)). e = None)
   \<and> (if \<forall>e \<in> set (stopResults ps (world s)). e = None
       then fst (stopPlugins ps s) = None
       else fst (stopPlugins ps s)
              = Some (Aggregate (List.map_filter (\<lambda>e. e) (stopResults ps (world s)))))"
  by (simp add: stopPlugins_eq stopLoop_eq stopResults_length stopResults_nth
        NewAggregate_None_iff NewAggregate_Some)

text \<open>
  The theorem on two plugins, the second of which fails to stop, and on two that stop.
\<close>

theorem stopPlugins_stops_all_witness:
  "calls (snd (stopPlugins (ex_stopFails 0) ex_env)) = [CallStop 0, CallStop 1]
   \<and> stopResults (ex_stopFails 0) (world ex_env) = [None, Some (ErrorString ''stop failed'')]
   \<and> fst (stopPlugins (ex_stopFails 0) ex_env) = Some (Aggregate [ErrorString ''stop failed''])
   \<and> fst (stopPlugins (ex_healthy 0) ex_env) = None"
  using stopPlugins_stops_all [of "ex_stopFails 0" ex_env]
        stopPlugins_stops_all [of "ex_healthy 0" ex_env]
  by (simp add: ex_stopFails_def ex_healthy_def ex_plugin_def ex_env_def)

section \<open>Starting the plugins\<close>

lemma callStart_eq:
  "callStart p s =
     (fst (Start p (world s)),
      s\<lparr>world := snd (Start p (world s)), calls := calls s @ [CallStart (ident p)]\<rparr>)"
  by (simp add: callStart_def case_prod_beta)

lemma constructPlugins_frame:
  "constructPlugins X c flags s = (r, s1) \<Longrightarrow>
     calls s1 = calls s \<and> timers s1 = timers s \<and> expired s1 = expired s"
  unfolding constructPlugins_def Let_def
  by (auto simp: extern_def klogf_def split: go.splits sum.splits prod.splits)

lemma startLoop_frame:
  "startLoop ps k s = (r, s1) \<Longrightarrow> timers s1 = timers s \<and> expired s1 = expired s"
proof (induction ps arbitrary: k s)
  case Nil
  then show ?case by auto
next
  case (Cons p ps)
  show ?case
  proof (cases "length (plugin_Devices p (world s)) = 0")
    case True
    with Cons show ?thesis by simp
  next
    case False
    show ?thesis
    proof (cases "fst (Start p (world s))")
      case None
      with Cons.prems False
      have "startLoop ps (k + 1)
              (s\<lparr>world := snd (Start p (world s)), calls := calls s @ [CallStart (ident p)]\<rparr>)
            = (r, s1)"
        by (simp add: callStart_eq)
      from Cons.IH [OF this] show ?thesis by simp
    next
      case (Some e)
      with Cons.prems False show ?thesis by (auto simp: callStart_eq)
    qed
  qed
qed

lemma startLoop_append:
  "startLoop pre k s = ((False, k1), s1) \<Longrightarrow>
     startLoop (pre @ post) k s = startLoop post k1 s1"
proof (induction pre arbitrary: k s)
  case Nil
  then show ?case by simp
next
  case (Cons p pre)
  show ?case
  proof (cases "length (plugin_Devices p (world s)) = 0")
    case True
    with Cons show ?thesis by simp
  next
    case False
    show ?thesis
    proof (cases "fst (Start p (world s))")
      case None
      with Cons.prems False
      have "startLoop pre (k + 1)
              (s\<lparr>world := snd (Start p (world s)), calls := calls s @ [CallStart (ident p)]\<rparr>)
            = ((False, k1), s1)"
        by (simp add: callStart_eq)
      from Cons.IH [OF this] None False show ?thesis by (simp add: callStart_eq)
    next
      case (Some e)
      with Cons.prems False show ?thesis by (simp add: callStart_eq)
    qed
  qed
qed

lemma startLoop_no_devices:
  "\<forall>p \<in> set ps. plugin_Devices p (world s) = [] \<Longrightarrow> startLoop ps k s = ((False, k), s)"
  by (induction ps) simp_all

lemma startLoop_failure:
  assumes "plugin_Devices p (world s) \<noteq> []" and "fst (Start p (world s)) = Some err"
  shows "startLoop (p # post) k s =
           ((True, k), s\<lparr>world := snd (Start p (world s)),
                         calls := calls s @ [CallStart (ident p)],
                         klog := klog s @ msgsKubelet\<rparr>)"
  using assms by (simp add: callStart_eq)

lemma startPlugins_frame:
  "startPlugins X c flags r s = (res, s1) \<Longrightarrow> timers s1 = timers s \<and> expired s1 = expired s"
proof -
  assume a: "startPlugins X c flags r s = (res, s1)"
  obtain cr s2 where c: "constructPlugins X c flags s = (cr, s2)"
    by (cases "constructPlugins X c flags s")
  note f = constructPlugins_frame [OF c]
  show ?thesis
  proof (cases cr)
    case Panic
    with a c f show ?thesis by (simp add: startPlugins_def)
  next
    case (Return x)
    show ?thesis
    proof (cases x)
      case (Inl e)
      with a c f Return show ?thesis by (simp add: startPlugins_def)
    next
      case (Inr ps)
      obtain b k s3 where l: "startLoop ps 0 s2 = ((b, k), s3)"
        by (cases "startLoop ps 0 s2") auto
      from a c Return Inr l startLoop_frame [OF l] f show ?thesis
        by (auto simp: startPlugins_def split: if_splits bool.splits)
    qed
  qed
qed

section \<open>The retry timer across the passes\<close>

lemma startPass_timer:
  assumes "startPass X c flags v s = (r, s1)"
  shows "expired s1 = expired s"
    and "r = Blocked v1 \<Longrightarrow>
           restarting v1 \<and>
           (if restartPlugins v1
            then restartTimeout v1 = Some (length (timers s)) \<and> timers s1 = timers s @ [30 * Second]
            else restartTimeout v1 = restartTimeout v \<and> timers s1 = timers s)"
proof -
  obtain res s2 where sp:
    "startPlugins X c flags (restarting v) (klogf (Log Info ''Starting Plugins.'' []) s) = (res, s2)"
    by (cases "startPlugins X c flags (restarting v) (klogf (Log Info ''Starting Plugins.'' []) s)")
  from startPlugins_frame [OF sp] have f: "timers s2 = timers s" "expired s2 = expired s"
    by simp_all
  from assms sp f show "expired s1 = expired s"
    by (auto simp: startPass_def time_After_def klogf_def split: go.splits option.splits if_splits)
  assume "r = Blocked v1"
  with assms sp f show "restarting v1 \<and>
           (if restartPlugins v1
            then restartTimeout v1 = Some (length (timers s)) \<and> timers s1 = timers s @ [30 * Second]
            else restartTimeout v1 = restartTimeout v \<and> timers s1 = timers s)"
    by (auto simp: startPass_def time_After_def klogf_def split: go.splits option.splits if_splits)
qed

lemma startPass_newest:
  assumes "startPass X c flags v s = (Blocked v1, s1)" and "newestTimer v s"
  shows "newestTimer v1 s1"
  using startPass_timer(2) [OF assms(1), of v1] assms(2)
  by (auto simp: newestTimer_def split: if_splits)

lemma restart_newest:
  assumes "restart X c flags v s = (Blocked v1, s1)" and "newestTimer v s"
  shows "newestTimer v1 s1"
proof (cases "restarting v")
  case False
  with assms(1) have "startPass X c flags v s = (Blocked v1, s1)" by (simp add: restart_def)
  from startPass_newest [OF this assms(2)] show ?thesis .
next
  case True
  obtain r s2 where sp: "stopPlugins (plugins v) s = (r, s2)"
    by (cases "stopPlugins (plugins v) s")
  from stopPlugins_frame [OF sp] assms(2) have n: "newestTimer v s2"
    by (simp add: newestTimer_def)
  from assms(1) True sp have "startPass X c flags v s2 = (Blocked v1, s1)"
    by (cases r) (simp_all add: restart_def)
  from startPass_newest [OF this n] show ?thesis .
qed

lemma newestTimer_expired [simp]: "newestTimer v (s\<lparr>expired := e\<rparr>) = newestTimer v s"
  by (simp add: newestTimer_def)

lemma newestTimer_klogf [simp]: "newestTimer v (klogf l s) = newestTimer v s"
  by (simp add: newestTimer_def)

lemma eventLoop_newest:
  "eventLoop X c flags es v s = (Blocked v1, s1) \<Longrightarrow> newestTimer v s \<Longrightarrow> newestTimer v1 s1"
proof (induction es arbitrary: v s)
  case Nil
  then show ?case by simp
next
  case (Cons e es)
  show ?case
  proof (cases e)
    case (TimerFires k)
    show ?thesis
    proof (cases "k < length (timers s) \<and> k \<notin> set (expired s)")
      case False
      with Cons TimerFires show ?thesis by auto
    next
      case fresh: True
      show ?thesis
      proof (cases "restartTimeout v = Some k")
        case False
        with Cons.prems TimerFires fresh
        have "eventLoop X c flags es v (s\<lparr>expired := k # expired s\<rparr>) = (Blocked v1, s1)" by simp
        from Cons.IH [OF this] Cons.prems(2) show ?thesis by simp
      next
        case True
        obtain r s2 where rs: "restart X c flags v (s\<lparr>expired := k # expired s\<rparr>) = (r, s2)"
          by (cases "restart X c flags v (s\<lparr>expired := k # expired s\<rparr>)")
        with Cons.prems TimerFires fresh True obtain v2 where
          r: "r = Blocked v2" and e: "eventLoop X c flags es v2 s2 = (Blocked v1, s1)"
          by (cases r) auto
        from restart_newest [OF rs [unfolded r]] Cons.prems(2) have "newestTimer v2 s2" by simp
        from Cons.IH [OF e this] show ?thesis .
      qed
    qed
  next
    case (WatcherEvent name op)
    show ?thesis
    proof (cases "name = KubeletSocket X \<and> op AND fsnotify_Create = fsnotify_Create")
      case False
      with Cons WatcherEvent show ?thesis by auto
    next
      case True
      let ?s = "klogf (Log Info ''inotify: %s created, restarting.'' [ArgString (KubeletSocket X)]) s"
      obtain r s2 where rs: "restart X c flags v ?s = (r, s2)"
        by (cases "restart X c flags v ?s")
      with Cons.prems WatcherEvent True obtain v2 where
        r: "r = Blocked v2" and e: "eventLoop X c flags es v2 s2 = (Blocked v1, s1)"
        by (cases r) auto
      from restart_newest [OF rs [unfolded r]] Cons.prems(2) have "newestTimer v2 s2" by simp
      from Cons.IH [OF e this] show ?thesis .
    qed
  next
    case (WatcherError err)
    with Cons.prems
    have "eventLoop X c flags es v (klogf (Log Error ''inotify: %s'' [ArgError err]) s) = (Blocked v1, s1)"
      by simp
    from Cons.IH [OF this] Cons.prems(2) show ?thesis by simp
  next
    case (OSSignal sig)
    show ?thesis
    proof (cases "sig = SIGHUP")
      case True
      let ?s = "klogf (Log Info ''Received SIGHUP, restarting.'' []) s"
      obtain r s2 where rs: "restart X c flags v ?s = (r, s2)"
        by (cases "restart X c flags v ?s")
      with Cons.prems OSSignal True obtain v2 where
        r: "r = Blocked v2" and e: "eventLoop X c flags es v2 s2 = (Blocked v1, s1)"
        by (cases r) auto
      from restart_newest [OF rs [unfolded r]] Cons.prems(2) have "newestTimer v2 s2" by simp
      from Cons.IH [OF e this] show ?thesis .
    next
      case False
      with Cons.prems OSSignal have False
        by (cases sig) (auto simp: exit_def split: prod.splits option.splits)
      then show ?thesis ..
    qed
  qed
qed

section \<open>The event loop\<close>

lemma eventLoop_append:
  "eventLoop X c flags (es1 @ es2) v s =
     (case eventLoop X c flags es1 v s of
        (Blocked v1, s1) \<Rightarrow> eventLoop X c flags es2 v1 s1
      | (r, s1) \<Rightarrow> (r, s1))"
proof (induction es1 arbitrary: v s)
  case Nil
  then show ?case by simp
next
  case (Cons e es1)
  show ?case
  proof (cases e)
    case (TimerFires k)
    then show ?thesis
      by (simp add: Cons.IH split: prod.splits outcome.splits)
  next
    case (WatcherEvent name op)
    then show ?thesis
      by (simp add: Cons.IH split: prod.splits outcome.splits)
  next
    case (WatcherError err)
    then show ?thesis by (simp add: Cons.IH)
  next
    case (OSSignal sig)
    then show ?thesis
      by (cases sig)
         (simp_all add: Cons.IH exit_def split: prod.splits outcome.splits option.splits)
  qed
qed

lemma start_decompose:
  assumes "start X c flags es w = (Blocked v, s)"
  shows "\<exists>v0 s0. newestTimer v0 s0
           \<and> eventLoop X c flags es v0 s0 = (Blocked v, s)
           \<and> (\<forall>es'. start X c flags es' w =
                 (case eventLoop X c flags es' v0 s0 of
                    (Blocked v1, s1) \<Rightarrow> (Blocked v1, s1)
                  | (r, s1) \<Rightarrow> (r, s1\<lparr>world := watcher_Close X (world s1)\<rparr>)))"
proof -
  let ?s0 = "\<lparr>world = InitGlobalClient X w, calls = [], klog = [Log Info ''Starting FS watcher.'' []],
               timers = [], expired = []\<rparr>"
  let ?v0 = "\<lparr>restarting = False, restartTimeout = None, plugins = [], restartPlugins = False\<rparr>"
  obtain e s1 where w: "extern (newFSWatcher X (DevicePluginPath X)) ?s0 = (e, s1)"
    by (cases "extern (newFSWatcher X (DevicePluginPath X)) ?s0")
  let ?s1 = "klogf (Log Info ''Starting OS watcher.'' [])
               (klogf (Log Info ''Start working on node %s'' [ArgString (Getenv_NodeName X w)]) s1)"
  from extern_frame [OF w] have n0: "newestTimer ?v0 ?s1" by (simp add: newestTimer_def)
  obtain r s2 where rs: "restart X c flags ?v0 ?s1 = (r, s2)"
    by (cases "restart X c flags ?v0 ?s1")
  have e: "e = None"
    using assms w by (cases e) (simp_all add: start_def Let_def)
  have "\<exists>v2. r = Blocked v2"
    using assms w rs e by (cases r) (simp_all add: start_def Let_def)
  then obtain v2 where r: "r = Blocked v2" ..
  have st: "start X c flags es' w =
              (case eventLoop X c flags es' v2 s2 of
                 (Blocked v1, s1) \<Rightarrow> (Blocked v1, s1)
               | (r, s1) \<Rightarrow> (r, s1\<lparr>world := watcher_Close X (world s1)\<rparr>))" for es'
    using w rs e r by (simp add: start_def Let_def)
  have el: "eventLoop X c flags es v2 s2 = (Blocked v, s)"
    using assms st [of es]
    by (cases "eventLoop X c flags es v2 s2"; cases "fst (eventLoop X c flags es v2 s2)") auto
  from restart_newest [OF rs [unfolded r] n0] have "newestTimer v2 s2" .
  with el st show ?thesis by blast
qed

lemma start_newest:
  assumes "start X c flags es w = (Blocked v, s)"
  shows "newestTimer v s"
proof -
  from start_decompose [OF assms] obtain v0 s0 where
    n: "newestTimer v0 s0" and el: "eventLoop X c flags es v0 s0 = (Blocked v, s)"
    by blast
  from eventLoop_newest [OF el n] show ?thesis .
qed

lemma start_append:
  assumes "start X c flags es1 w = (Blocked v, s)"
  shows "start X c flags (es1 @ es2) w =
           (case eventLoop X c flags es2 v s of
              (Blocked v1, s1) \<Rightarrow> (Blocked v1, s1)
            | (r, s1) \<Rightarrow> (r, s1\<lparr>world := watcher_Close X (world s1)\<rparr>))"
proof -
  from start_decompose [OF assms] obtain v0 s0 where
    el: "eventLoop X c flags es1 v0 s0 = (Blocked v, s)" and
    st: "\<And>es'. start X c flags es' w =
                 (case eventLoop X c flags es' v0 s0 of
                    (Blocked v1, s1) \<Rightarrow> (Blocked v1, s1)
                  | (r, s1) \<Rightarrow> (r, s1\<lparr>world := watcher_Close X (world s1)\<rparr>))"
    by blast
  show ?thesis
    by (simp add: st [of "es1 @ es2"] eventLoop_append el)
qed

section \<open>Restart and shutdown\<close>

lemmas ex_defs =
  ex_externals_def ex_validConfig_def ex_config_def ex_pluginFlags_def ex_gfdFlags_def ex_plugin_def
  ex_rename_def

lemmas run_defs =
  start_def restart_def startPass_def startPlugins_def constructPlugins_def loadConfig_def
  validateFlags_def disableResourceRenamingInConfig_def timeSlicingRange_def stopPlugins_def
  exit_def main_def exitStatus_def NewAggregate_def
  extern_def klogf_def callStart_def callStop_def time_After_def len_def Let_def
  DeviceIDStrategyUUID_def DeviceIDStrategyIndex_def fsnotify_Create_def

text \<open>
  Claim C1, as amended. On a restart pass the supervisor calls \<open>Stop\<close> on every handle
  of the previous pass, in order, each call on the state that the call before it left.
  When every one of these \<open>Stop\<close> calls returned nil it goes on with the start pass
  (lines 212 to 223). When some \<open>Stop\<close> call returned an error, whichever handle it was,
  \<open>start\<close> returns the aggregate of the errors returned, wrapped in
  \<open>error stopping plugins from previous run\<close>, and nothing else has run: the state is
  the one that the \<open>Stop\<close> calls left, with these calls recorded and one line logged.
\<close>

theorem restart_stops_previous_handles:
  assumes "restarting v"
  shows "snd (stopPlugins (plugins v) s)
           = s\<lparr>world := stopWorld (plugins v) (world s),
               calls := calls s @ map (\<lambda>p. CallStop (ident p)) (plugins v),
               klog := klog s @ [Log Info ''Stopping plugins.'' []]\<rparr>
       \<and> (if \<forall>e \<in> set (stopResults (plugins v) (world s)). e = None
          then restart X c flags v s = startPass X c flags v (snd (stopPlugins (plugins v) s))
          else restart X c flags v s =
                 (Returned (Some (FmtErrorf ''error stopping plugins from previous run: ''
                    (Aggregate (List.map_filter (\<lambda>e. e) (stopResults (plugins v) (world s)))))),
                  snd (stopPlugins (plugins v) s)))"
proof (cases "\<forall>e \<in> set (stopResults (plugins v) (world s)). e = None")
  case True
  then have "NewAggregate (stopResults (plugins v) (world s)) = None"
    by (simp add: NewAggregate_None_iff)
  with assms
  have "restart X c flags v s = startPass X c flags v (snd (stopPlugins (plugins v) s))"
    by (simp add: restart_def stopPlugins_eq)
  then show ?thesis unfolding if_P [OF True] by (simp add: stopPlugins_eq)
next
  case False
  from NewAggregate_Some [OF this] assms
  have "restart X c flags v s =
          (Returned (Some (FmtErrorf ''error stopping plugins from previous run: ''
             (Aggregate (List.map_filter (\<lambda>e. e) (stopResults (plugins v) (world s)))))),
           snd (stopPlugins (plugins v) s))"
    by (simp add: restart_def stopPlugins_eq)
  then show ?thesis unfolding if_not_P [OF False] by (simp add: stopPlugins_eq)
qed

text \<open>
  The theorem after a first pass that started two plugins. Where both stop, they are
  stopped and two new ones are started; where the second fails to stop, \<open>start\<close>
  returns the error.
\<close>

theorem restart_stops_previous_handles_witness:
  "restarting (locals_of (fst (start (ex_externals ex_validConfig ex_healthy) () () [] 0)))
   \<and> map ident (plugins (locals_of (fst (start (ex_externals ex_validConfig ex_healthy) () () [] 0))))
       = [0, 1]
   \<and> stopResults (plugins (locals_of (fst (start (ex_externals ex_validConfig ex_healthy) () () [] 0))))
         (world (snd (start (ex_externals ex_validConfig ex_healthy) () () [] 0)))
       = [None, None]
   \<and> calls (snd (restart (ex_externals ex_validConfig ex_healthy) () ()
                  (locals_of (fst (start (ex_externals ex_validConfig ex_healthy) () () [] 0)))
                  (snd (start (ex_externals ex_validConfig ex_healthy) () () [] 0))))
       = [CallStart 0, CallStart 1, CallStop 0, CallStop 1, CallStart 2, CallStart 3]
   \<and> ownedIdents (fst (restart (ex_externals ex_validConfig ex_healthy) () ()
                  (locals_of (fst (start (ex_externals ex_validConfig ex_healthy) () () [] 0)))
                  (snd (start (ex_externals ex_validConfig ex_healthy) () () [] 0))))
       = Some [2, 3]
   \<and> restarting (locals_of (fst (start (ex_externals ex_validConfig ex_stopFails) () () [] 0)))
   \<and> stopResults (plugins (locals_of (fst (start (ex_externals ex_validConfig ex_stopFails) () () [] 0))))
         (world (snd (start (ex_externals ex_validConfig ex_stopFails) () () [] 0)))
       = [None, Some (ErrorString ''stop failed'')]
   \<and> fst (restart (ex_externals ex_validConfig ex_stopFails) () ()
                  (locals_of (fst (start (ex_externals ex_validConfig ex_stopFails) () () [] 0)))
                  (snd (start (ex_externals ex_validConfig ex_stopFails) () () [] 0)))
       = Returned (Some (FmtErrorf ''error stopping plugins from previous run: ''
            (Aggregate [ErrorString ''stop failed''])))"
  using restart_stops_previous_handles
          [of "locals_of (fst (start (ex_externals ex_validConfig ex_healthy) () () [] 0))"
              "snd (start (ex_externals ex_validConfig ex_healthy) () () [] 0)"
              "ex_externals ex_validConfig ex_healthy" "()" "()"]
        restart_stops_previous_handles
          [of "locals_of (fst (start (ex_externals ex_validConfig ex_stopFails) () () [] 0))"
              "snd (start (ex_externals ex_validConfig ex_stopFails) () () [] 0)"
              "ex_externals ex_validConfig ex_stopFails" "()" "()"]
  by (simp add: run_defs ex_defs ex_healthy_def ex_stopFails_def ownedIdents_def)

text \<open>
  Claim C1 as stated fails: two plugins are started, SIGHUP arrives, \<open>Stop\<close> of the
  second fails; \<open>start\<close> returns the error and no second start pass runs (no further
  \<open>Start\<close> call, and the plugins were retrieved once).
\<close>

theorem restart_blocked_by_stop_error_counterexample:
  "fst (start (ex_externals ex_validConfig ex_stopFails) () () [OSSignal SIGHUP] 0)
     = Returned (Some (FmtErrorf ''error stopping plugins from previous run: ''
          (Aggregate [ErrorString ''stop failed''])))
   \<and> calls (snd (start (ex_externals ex_validConfig ex_stopFails) () () [OSSignal SIGHUP] 0))
     = [CallStart 0, CallStart 1, CallStop 0, CallStop 1]
   \<and> world (snd (start (ex_externals ex_validConfig ex_stopFails) () () [OSSignal SIGHUP] 0)) = 1"
  by (simp add: run_defs ex_defs ex_stopFails_def)

text \<open>
  Claim C2, as amended. When SIGINT, SIGTERM or SIGQUIT arrives while the supervisor is
  blocked in the \<open>select\<close> with the handles \<open>plugins v\<close>, it calls \<open>Stop\<close> once on each
  of them, in order, and the process ends. When every one of these \<open>Stop\<close> calls
  returned nil, \<open>start\<close> returns nil and the status is 0. When some \<open>Stop\<close> call returned
  an error, whichever handle it was, \<open>start\<close> returns the aggregate of the errors
  returned, wrapped in \<open>error stopping plugins\<close>, \<open>main\<close> logs this error and the
  status is 1.
\<close>

theorem terminal_signal_stops_all:
  assumes "start X c flags es1 w = (Blocked v, s)" and "sig \<noteq> SIGHUP"
  shows "calls (snd (main X c flags (es1 @ OSSignal sig # es2) w))
           = calls s @ map (\<lambda>p. CallStop (ident p)) (plugins v)
       \<and> (if \<forall>e \<in> set (stopResults (plugins v) (world s)). e = None
          then fst (start X c flags (es1 @ OSSignal sig # es2) w) = Returned None
             \<and> fst (main X c flags (es1 @ OSSignal sig # es2) w) = Some 0
             \<and> klog (snd (main X c flags (es1 @ OSSignal sig # es2) w))
                 = klog s @
                   [Log Info (''Received signal '' @ [CHR 0x22] @ ''%v'' @ [CHR 0x22] @ '', shutting down.'')
                      [ArgSignal sig],
                    Log Info ''Stopping plugins.'' []]
          else fst (start X c flags (es1 @ OSSignal sig # es2) w)
                 = Returned (Some (FmtErrorf ''error stopping plugins: ''
                     (Aggregate (List.map_filter (\<lambda>e. e) (stopResults (plugins v) (world s))))))
             \<and> fst (main X c flags (es1 @ OSSignal sig # es2) w) = Some 1
             \<and> klog (snd (main X c flags (es1 @ OSSignal sig # es2) w))
                 = klog s @
                   [Log Info (''Received signal '' @ [CHR 0x22] @ ''%v'' @ [CHR 0x22] @ '', shutting down.'')
                      [ArgSignal sig],
                    Log Info ''Stopping plugins.'' [],
                    Log Error ''%v'' [ArgError (FmtErrorf ''error stopping plugins: ''
                      (Aggregate (List.map_filter (\<lambda>e. e) (stopResults (plugins v) (world s)))))]])"
proof -
  let ?s = "klogf (Log Info (''Received signal '' @ [CHR 0x22] @ ''%v'' @ [CHR 0x22] @ '', shutting down.'')
                     [ArgSignal sig]) s"
  have el: "eventLoop X c flags (OSSignal sig # es2) v s = exit v ?s"
    using assms(2) by (cases sig) simp_all
  have st: "start X c flags (es1 @ OSSignal sig # es2) w =
              (case exit v ?s of
                 (Blocked v1, s1) \<Rightarrow> (Blocked v1, s1)
               | (r, s1) \<Rightarrow> (r, s1\<lparr>world := watcher_Close X (world s1)\<rparr>))"
    unfolding start_append [OF assms(1)] el ..
  show ?thesis
  proof (cases "\<forall>e \<in> set (stopResults (plugins v) (world s)). e = None")
    case True
    then have "NewAggregate (stopResults (plugins v) (world s)) = None"
      by (simp add: NewAggregate_None_iff)
    then show ?thesis unfolding if_P [OF True]
      by (simp add: main_def st exit_def exitStatus_def stopPlugins_eq klogf_def)
  next
    case False
    from NewAggregate_Some [OF this] show ?thesis unfolding if_not_P [OF False]
      by (simp add: main_def st exit_def exitStatus_def stopPlugins_eq klogf_def)
  qed
qed

text \<open>
  The theorem for SIGTERM after the first pass started two plugins: where the second
  fails to stop, the status is 1 and the last line logged is the error; where both
  stop, the status is 0.
\<close>

theorem terminal_signal_stops_all_witness:
  "start (ex_externals ex_validConfig ex_stopFails) () () [] 0
     = (Blocked (locals_of (fst (start (ex_externals ex_validConfig ex_stopFails) () () [] 0))),
        snd (start (ex_externals ex_validConfig ex_stopFails) () () [] 0))
   \<and> SIGTERM \<noteq> SIGHUP
   \<and> map ident (plugins (locals_of (fst (start (ex_externals ex_validConfig ex_stopFails) () () [] 0))))
       = [0, 1]
   \<and> stopResults (plugins (locals_of (fst (start (ex_externals ex_validConfig ex_stopFails) () () [] 0))))
         (world (snd (start (ex_externals ex_validConfig ex_stopFails) () () [] 0)))
       = [None, Some (ErrorString ''stop failed'')]
   \<and> calls (snd (main (ex_externals ex_validConfig ex_stopFails) () () ([] @ OSSignal SIGTERM # []) 0))
       = [CallStart 0, CallStart 1, CallStop 0, CallStop 1]
   \<and> fst (main (ex_externals ex_validConfig ex_stopFails) () () ([] @ OSSignal SIGTERM # []) 0) = Some 1
   \<and> last (klog (snd (main (ex_externals ex_validConfig ex_stopFails) () () ([] @ OSSignal SIGTERM # []) 0)))
       = Log Error ''%v'' [ArgError (FmtErrorf ''error stopping plugins: ''
           (Aggregate [ErrorString ''stop failed'']))]
   \<and> start (ex_externals ex_validConfig ex_healthy) () () [] 0
     = (Blocked (locals_of (fst (start (ex_externals ex_validConfig ex_healthy) () () [] 0))),
        snd (start (ex_externals ex_validConfig ex_healthy) () () [] 0))
   \<and> stopResults (plugins (locals_of (fst (start (ex_externals ex_validConfig ex_healthy) () () [] 0))))
         (world (snd (start (ex_externals ex_validConfig ex_healthy) () () [] 0)))
       = [None, None]
   \<and> calls (snd (main (ex_externals ex_validConfig ex_healthy) () () ([] @ OSSignal SIGTERM # []) 0))
       = [CallStart 0, CallStart 1, CallStop 0, CallStop 1]
   \<and> fst (main (ex_externals ex_validConfig ex_healthy) () () ([] @ OSSignal SIGTERM # []) 0) = Some 0"
  using terminal_signal_stops_all
          [of "ex_externals ex_validConfig ex_stopFails" "()" "()" "[]" 0
              "locals_of (fst (start (ex_externals ex_validConfig ex_stopFails) () () [] 0))"
              "snd (start (ex_externals ex_validConfig ex_stopFails) () () [] 0)" SIGTERM "[]"]
        terminal_signal_stops_all
          [of "ex_externals ex_validConfig ex_healthy" "()" "()" "[]" 0
              "locals_of (fst (start (ex_externals ex_validConfig ex_healthy) () () [] 0))"
              "snd (start (ex_externals ex_validConfig ex_healthy) () () [] 0)" SIGTERM "[]"]
  by (simp add: run_defs ex_defs ex_healthy_def ex_stopFails_def)

text \<open>
  Claim C2 as stated fails: with two handles, the second of which fails to stop,
  SIGTERM leads to one \<open>Stop\<close> call on each and to exit status 1.
\<close>

theorem terminal_signal_exit_status_counterexample:
  "fst (main (ex_externals ex_validConfig ex_stopFails) () () [OSSignal SIGTERM] 0) = Some 1
   \<and> calls (snd (main (ex_externals ex_validConfig ex_stopFails) () () [OSSignal SIGTERM] 0))
       = [CallStart 0, CallStart 1, CallStop 0, CallStop 1]"
  by (simp add: run_defs ex_defs ex_stopFails_def)

section \<open>The start pass\<close>

lemma startLoop_calls:
  "startLoop ps k s = ((b, k1), s1) \<Longrightarrow>
     \<exists>qs. calls s1 = calls s @ map (\<lambda>p. CallStart (ident p)) qs \<and> set qs \<subseteq> set ps
          \<and> (b \<or> k1 = k + length qs)"
proof (induction ps arbitrary: k s)
  case Nil
  then show ?case by auto
next
  case (Cons p ps)
  show ?case
  proof (cases "length (plugin_Devices p (world s)) = 0")
    case True
    with Cons.prems have "startLoop ps k s = ((b, k1), s1)" by simp
    from Cons.IH [OF this] show ?thesis by auto
  next
    case False
    show ?thesis
    proof (cases "fst (Start p (world s))")
      case None
      let ?s = "s\<lparr>world := snd (Start p (world s)), calls := calls s @ [CallStart (ident p)]\<rparr>"
      from None Cons.prems False have "startLoop ps (k + 1) ?s = ((b, k1), s1)"
        by (simp add: callStart_eq)
      from Cons.IH [OF this] obtain qs where
        q: "calls s1 = calls ?s @ map (\<lambda>p. CallStart (ident p)) qs" "set qs \<subseteq> set ps"
           "b \<or> k1 = k + 1 + length qs"
        by blast
      have "calls s1 = calls s @ map (\<lambda>p. CallStart (ident p)) (p # qs)
            \<and> set (p # qs) \<subseteq> set (p # ps) \<and> (b \<or> k1 = k + length (p # qs))"
        using q by auto
      then show ?thesis by blast
    next
      case (Some e)
      with Cons.prems False
      have "calls s1 = calls s @ map (\<lambda>p. CallStart (ident p)) [p] \<and> set [p] \<subseteq> set (p # ps) \<and> b"
        by (auto simp: callStart_eq)
      then show ?thesis by blast
    qed
  qed
qed

text \<open>
  Claim C3, as amended. The plugins \<open>ps\<close> have been constructed, no \<open>Start\<close> has failed
  before index \<open>i\<close>, and the plugin at \<open>i\<close> has devices and its \<open>Start\<close> fails. Then
  startPlugins returns at once: the failed \<open>Start\<close> is its last call, after the \<open>k\<close>
  calls on plugins before \<open>i\<close>, and no plugin after \<open>i\<close> is started. It returns the
  whole list \<open>ps\<close> (the started handles, the failed one, and also the handles that were
  skipped or not reached), the retry flag true and a nil error; \<open>start\<close> keeps \<open>ps\<close> for
  the stop step of the next pass and arms a new timer of 30 seconds, that is
  30000000000 nanoseconds, which \<open>restartTimeout\<close> then holds.
\<close>

theorem first_start_failure_degrades:
  assumes "constructPlugins X c flags (klogf (Log Info ''Starting Plugins.'' []) s)
             = (Return (Inr ps), s1)"
      and "i < length ps"
      and "startLoop (take i ps) 0 s1 = ((False, k), s2)"
      and "plugin_Devices (ps ! i) (world s2) \<noteq> []"
      and "fst (Start (ps ! i) (world s2)) = Some err"
  shows "\<exists>s3 qs.
           startPlugins X c flags (restarting v) (klogf (Log Info ''Starting Plugins.'' []) s)
             = (Return (ps, True, None), s3)
         \<and> startPass X c flags v s
             = (Blocked (v\<lparr>plugins := ps, restartPlugins := True,
                           restartTimeout := Some (length (timers s)), restarting := True\<rparr>),
                s3\<lparr>klog := klog s3 @ [Log Info ''Failed to start one or more plugins. Retrying in 30s...'' []],
                   timers := timers s @ [30 * Second]\<rparr>)
         \<and> calls s3 = calls s @ map (\<lambda>p. CallStart (ident p)) qs @ [CallStart (ident (ps ! i))]
         \<and> set qs \<subseteq> set (take i ps) \<and> length qs = k
         \<and> 30 * Second = 30000000000"
proof -
  let ?s3 = "s2\<lparr>world := snd (Start (ps ! i) (world s2)),
                 calls := calls s2 @ [CallStart (ident (ps ! i))],
                 klog := klog s2 @ msgsKubelet\<rparr>"
  from assms(2) have ps: "ps = take i ps @ (ps ! i) # drop (Suc i) ps"
    by (simp add: id_take_nth_drop)
  have "startLoop ps 0 s1 = startLoop ((ps ! i) # drop (Suc i) ps) k s2"
    using startLoop_append [OF assms(3), of "(ps ! i) # drop (Suc i) ps"] ps by simp
  also have "\<dots> = ((True, k), ?s3)"
    using startLoop_failure [OF assms(4,5)] .
  finally have l: "startLoop ps 0 s1 = ((True, k), ?s3)" .
  from startLoop_calls [OF assms(3)] obtain qs where
    q: "calls s2 = calls s1 @ map (\<lambda>p. CallStart (ident p)) qs" "set qs \<subseteq> set (take i ps)"
       "k = length qs"
    by auto
  from constructPlugins_frame [OF assms(1)] have f: "calls s1 = calls s" "timers s1 = timers s"
    by simp_all
  from startLoop_frame [OF assms(3)] have t: "timers s2 = timers s1" by simp
  have sp: "startPlugins X c flags (restarting v) (klogf (Log Info ''Starting Plugins.'' []) s)
             = (Return (ps, True, None), ?s3)"
    using assms(1) l by (simp add: startPlugins_def)
  have pass: "startPass X c flags v s
             = (Blocked (v\<lparr>plugins := ps, restartPlugins := True,
                           restartTimeout := Some (length (timers s)), restarting := True\<rparr>),
                ?s3\<lparr>klog := klog ?s3 @ [Log Info ''Failed to start one or more plugins. Retrying in 30s...'' []],
                   timers := timers s @ [30 * Second]\<rparr>)"
    using sp f t by (simp add: startPass_def time_After_def klogf_def)
  have "calls ?s3 = calls s @ map (\<lambda>p. CallStart (ident p)) qs @ [CallStart (ident (ps ! i))]"
    using q f by simp
  with sp pass q show ?thesis
    by (intro exI [of _ ?s3] exI [of _ qs]) (simp add: Second_def)
qed

text \<open>
  The theorem on three plugins with devices, the second of which fails to start.
\<close>

theorem first_start_failure_degrades_witness:
  "constructPlugins (ex_externals ex_validConfig ex_secondFails) () ()
       (klogf (Log Info ''Starting Plugins.'' []) ex_env)
     = (Return (Inr (ex_secondFails 0)),
        snd (constructPlugins (ex_externals ex_validConfig ex_secondFails) () ()
               (klogf (Log Info ''Starting Plugins.'' []) ex_env)))
   \<and> (1::nat) < length (ex_secondFails 0)
   \<and> ownedIdents (fst (startPass (ex_externals ex_validConfig ex_secondFails) () () ex_locals ex_env))
       = Some [0, 1, 2]
   \<and> lastPassDegraded (fst (startPass (ex_externals ex_validConfig ex_secondFails) () () ex_locals ex_env))
       = Some True
   \<and> heldTimer (fst (startPass (ex_externals ex_validConfig ex_secondFails) () () ex_locals ex_env))
       = Some 0
   \<and> timers (snd (startPass (ex_externals ex_validConfig ex_secondFails) () () ex_locals ex_env))
       = [30000000000]
   \<and> calls (snd (startPass (ex_externals ex_validConfig ex_secondFails) () () ex_locals ex_env))
       = [CallStart 0, CallStart 1]"
  using first_start_failure_degrades
          [of "ex_externals ex_validConfig ex_secondFails" "()" "()" ex_env "ex_secondFails 0"
              "snd (constructPlugins (ex_externals ex_validConfig ex_secondFails) () ()
                      (klogf (Log Info ''Starting Plugins.'' []) ex_env))"
              1 1
              "snd (startLoop (take 1 (ex_secondFails 0)) 0
                      (snd (constructPlugins (ex_externals ex_validConfig ex_secondFails) () ()
                              (klogf (Log Info ''Starting Plugins.'' []) ex_env))))"
              "ErrorString ''no kubelet''" ex_locals]
  by (simp add: run_defs ex_defs ex_secondFails_def ex_env_def ex_locals_def
        ownedIdents_def lastPassDegraded_def heldTimer_def Second_def)

text \<open>
  Claim C3 as stated fails: of three plugins with devices, the second fails to start;
  \<open>Start\<close> was called on plugins 0 and 1 only, and the set kept for the next pass is
  0, 1 and 2.
\<close>

theorem owned_set_counterexample:
  "ownedIdents (fst (start (ex_externals ex_validConfig ex_secondFails) () () [] 0)) = Some [0, 1, 2]
   \<and> calls (snd (start (ex_externals ex_validConfig ex_secondFails) () () [] 0))
       = [CallStart 0, CallStart 1]
   \<and> lastPassDegraded (fst (start (ex_externals ex_validConfig ex_secondFails) () () [] 0)) = Some True"
  by (simp add: run_defs ex_defs ex_secondFails_def ownedIdents_def lastPassDegraded_def)

text \<open>
  Claim C8. When every constructed plugin reports no device, the start pass calls
  \<open>Start\<close> on no plugin (the record of calls is unchanged), startPlugins returns the
  plugins with the retry flag false and a nil error, and \<open>start\<close> arms no timer:
  no channel is made and \<open>restartTimeout\<close> is as it was.
\<close>

theorem zero_devices_quiescent:
  assumes "constructPlugins X c flags (klogf (Log Info ''Starting Plugins.'' []) s)
             = (Return (Inr ps), s1)"
      and "\<forall>p \<in> set ps. length (plugin_Devices p (world s1)) = 0"
  shows "startPlugins X c flags (restarting v) (klogf (Log Info ''Starting Plugins.'' []) s)
           = (Return (ps, False, None),
              klogf (Log Info ''No devices found. Waiting indefinitely.'' []) s1)
       \<and> startPass X c flags v s
           = (Blocked (v\<lparr>plugins := ps, restartPlugins := False, restarting := True\<rparr>),
              klogf (Log Info ''No devices found. Waiting indefinitely.'' []) s1)
       \<and> calls (snd (startPass X c flags v s)) = calls s
       \<and> timers (snd (startPass X c flags v s)) = timers s
       \<and> heldTimer (fst (startPass X c flags v s)) = restartTimeout v"
proof -
  from assms(2) have "startLoop ps 0 s1 = ((False, 0), s1)"
    by (intro startLoop_no_devices) simp
  with assms(1)
  have sp: "startPlugins X c flags (restarting v) (klogf (Log Info ''Starting Plugins.'' []) s)
           = (Return (ps, False, None),
              klogf (Log Info ''No devices found. Waiting indefinitely.'' []) s1)"
    by (simp add: startPlugins_def)
  then have "startPass X c flags v s
           = (Blocked (v\<lparr>plugins := ps, restartPlugins := False, restarting := True\<rparr>),
              klogf (Log Info ''No devices found. Waiting indefinitely.'' []) s1)"
    by (simp add: startPass_def)
  with sp constructPlugins_frame [OF assms(1)] show ?thesis by (simp add: heldTimer_def)
qed

text \<open>
  The theorem on two plugins without devices.
\<close>

theorem zero_devices_quiescent_witness:
  "constructPlugins (ex_externals ex_validConfig ex_noDevices) () ()
       (klogf (Log Info ''Starting Plugins.'' []) ex_env)
     = (Return (Inr (ex_noDevices 0)),
        snd (constructPlugins (ex_externals ex_validConfig ex_noDevices) () ()
               (klogf (Log Info ''Starting Plugins.'' []) ex_env)))
   \<and> map (\<lambda>p. length (plugin_Devices p 1)) (ex_noDevices 0) = [0, 0]
   \<and> ownedIdents (fst (startPass (ex_externals ex_validConfig ex_noDevices) () () ex_locals ex_env))
       = Some [0, 1]
   \<and> lastPassDegraded (fst (startPass (ex_externals ex_validConfig ex_noDevices) () () ex_locals ex_env))
       = Some False
   \<and> calls (snd (startPass (ex_externals ex_validConfig ex_noDevices) () () ex_locals ex_env)) = []
   \<and> timers (snd (startPass (ex_externals ex_validConfig ex_noDevices) () () ex_locals ex_env)) = []"
  using zero_devices_quiescent
          [of "ex_externals ex_validConfig ex_noDevices" "()" "()" ex_env "ex_noDevices 0"
              "snd (constructPlugins (ex_externals ex_validConfig ex_noDevices) () ()
                      (klogf (Log Info ''Starting Plugins.'' []) ex_env))"
              ex_locals]
  by (simp add: run_defs ex_defs ex_noDevices_def ex_env_def ex_locals_def
        ownedIdents_def lastPassDegraded_def heldTimer_def)

section \<open>The retry timer\<close>

text \<open>
  Claim C4, as amended. In every state in which \<open>start\<close> is blocked in the \<open>select\<close>:
  \<open>restartTimeout\<close> is nil when no timer was ever armed and is the newest channel
  otherwise, so a timer that was superseded is not held any more; the event of timer
  \<open>k\<close> triggers a restart exactly when \<open>restartTimeout\<close> is channel \<open>k\<close> and \<open>k\<close> has
  not fired before, and changes nothing but the set of fired timers otherwise; and a
  pass arms a timer (a new channel of 30 seconds, held by \<open>restartTimeout\<close>) exactly when
  it is degraded, a pass that is not degraded leaving \<open>restartTimeout\<close> as it was, be
  it a timer that an earlier degraded pass armed and that has not fired yet.
\<close>

theorem retry_timer_discipline:
  assumes "start X c flags es w = (Blocked v, s)"
  shows "restartTimeout v = (if timers s = [] then None else Some (length (timers s) - 1))
       \<and> (if restartTimeout v = Some k \<and> k \<notin> set (expired s)
          then eventLoop X c flags (TimerFires k # es') v s =
                 (case restart X c flags v (s\<lparr>expired := k # expired s\<rparr>) of
                    (Blocked v1, s1) \<Rightarrow> eventLoop X c flags es' v1 s1
                  | (r, s1) \<Rightarrow> (r, s1))
          else eventLoop X c flags (TimerFires k # es') v s =
                 eventLoop X c flags es' v
                   (if k < length (timers s) \<and> k \<notin> set (expired s)
                    then s\<lparr>expired := k # expired s\<rparr> else s))
       \<and> (\<forall>v1 s1. startPass X c flags v0 s0 = (Blocked v1, s1) \<longrightarrow>
            (if restartPlugins v1
             then restartTimeout v1 = Some (length (timers s0)) \<and> timers s1 = timers s0 @ [30 * Second]
             else restartTimeout v1 = restartTimeout v0 \<and> timers s1 = timers s0))"
proof -
  from start_newest [OF assms] have n:
    "restartTimeout v = (if timers s = [] then None else Some (length (timers s) - 1))"
    by (simp add: newestTimer_def)
  have g: "k < length (timers s)" if "restartTimeout v = Some k"
    using n that by (cases "timers s = []") simp_all
  have e: "if restartTimeout v = Some k \<and> k \<notin> set (expired s)
          then eventLoop X c flags (TimerFires k # es') v s =
                 (case restart X c flags v (s\<lparr>expired := k # expired s\<rparr>) of
                    (Blocked v1, s1) \<Rightarrow> eventLoop X c flags es' v1 s1
                  | (r, s1) \<Rightarrow> (r, s1))
          else eventLoop X c flags (TimerFires k # es') v s =
                 eventLoop X c flags es' v
                   (if k < length (timers s) \<and> k \<notin> set (expired s)
                    then s\<lparr>expired := k # expired s\<rparr> else s)"
  proof (cases "restartTimeout v = Some k \<and> k \<notin> set (expired s)")
    case True
    with g have "k < length (timers s)" by simp
    with True show ?thesis by (simp del: eventLoop.simps add: eventLoop.simps(2))
  next
    case False
    then show ?thesis by (auto simp del: eventLoop.simps simp add: eventLoop.simps(2))
  qed
  have a: "\<forall>v1 s1. startPass X c flags v0 s0 = (Blocked v1, s1) \<longrightarrow>
            (if restartPlugins v1
             then restartTimeout v1 = Some (length (timers s0)) \<and> timers s1 = timers s0 @ [30 * Second]
             else restartTimeout v1 = restartTimeout v0 \<and> timers s1 = timers s0)"
  proof (intro allI impI)
    fix v1 s1
    assume "startPass X c flags v0 s0 = (Blocked v1, s1)"
    from startPass_timer(2) [OF this refl] show
      "if restartPlugins v1
       then restartTimeout v1 = Some (length (timers s0)) \<and> timers s1 = timers s0 @ [30 * Second]
       else restartTimeout v1 = restartTimeout v0 \<and> timers s1 = timers s0"
      by simp
  qed
  from n e a show ?thesis by (intro conjI)
qed

text \<open>
  The theorem after a degraded first pass and a second pass, on SIGHUP, that is not
  degraded: \<open>restartTimeout\<close> still holds timer 0, which has not fired.
\<close>

theorem retry_timer_discipline_witness:
  "start (ex_externals ex_validConfig ex_failsOnce) () () [OSSignal SIGHUP] 0
     = (Blocked (locals_of (fst (start (ex_externals ex_validConfig ex_failsOnce) () () [OSSignal SIGHUP] 0))),
        snd (start (ex_externals ex_validConfig ex_failsOnce) () () [OSSignal SIGHUP] 0))
   \<and> lastPassDegraded (fst (start (ex_externals ex_validConfig ex_failsOnce) () () [OSSignal SIGHUP] 0))
       = Some False
   \<and> timers (snd (start (ex_externals ex_validConfig ex_failsOnce) () () [OSSignal SIGHUP] 0))
       = [30000000000]
   \<and> expired (snd (start (ex_externals ex_validConfig ex_failsOnce) () () [OSSignal SIGHUP] 0)) = []
   \<and> restartTimeout (locals_of (fst (start (ex_externals ex_validConfig ex_failsOnce) () () [OSSignal SIGHUP] 0)))
       = Some 0"
proof -
  define r where "r = start (ex_externals ex_validConfig ex_failsOnce) () () [OSSignal SIGHUP] 0"
  have d: "lastPassDegraded (fst r) = Some False"
    unfolding r_def by (simp add: run_defs ex_defs ex_failsOnce_def lastPassDegraded_def)
  then have b: "r = (Blocked (locals_of (fst r)), snd r)"
    by (cases r; cases "fst r") (auto simp: lastPassDegraded_def)
  have t: "timers (snd r) = [30000000000]"
    unfolding r_def by (simp add: run_defs ex_defs ex_failsOnce_def Second_def)
  have x: "expired (snd r) = []"
    unfolding r_def by (simp add: run_defs ex_defs ex_failsOnce_def)
  from retry_timer_discipline [OF b [unfolded r_def], of 0 "[]" ex_locals ex_env, folded r_def]
  have "restartTimeout (locals_of (fst r))
          = (if timers (snd r) = [] then None else Some (length (timers (snd r)) - 1))"
    by (rule conjunct1)
  with t have h: "restartTimeout (locals_of (fst r)) = Some 0" by simp
  from b d t x h show ?thesis unfolding r_def by (intro conjI)
qed

text \<open>
  Claim C4 as stated fails: the first pass is degraded and arms timer 0; SIGHUP arrives
  before the timer fires, and the second pass is not degraded; then timer 0 fires and
  triggers a third pass (the plugin of the second pass is stopped, a new one started).
\<close>

theorem stale_timer_counterexample:
  "lastPassDegraded (fst (start (ex_externals ex_validConfig ex_failsOnce) () () [OSSignal SIGHUP] 0))
     = Some False
   \<and> calls (snd (start (ex_externals ex_validConfig ex_failsOnce) () () [OSSignal SIGHUP] 0))
       = [CallStart 0, CallStop 0, CallStart 1]
   \<and> calls (snd (start (ex_externals ex_validConfig ex_failsOnce) () ()
                    [OSSignal SIGHUP, TimerFires 0] 0))
       = [CallStart 0, CallStop 0, CallStart 1, CallStop 1, CallStart 2]"
  by (simp add: run_defs ex_defs ex_failsOnce_def lastPassDegraded_def)

end
